theory Spec2Isabelle
  imports Main "HOL-Library.Sublist" "HOL-Library.AList"
begin

section \<open>Values, exceptions and the collaborators of \<open>nani/manager.py\<close>\<close>

text \<open>
  Python exceptions are values of \<open>error\<close>; a function that can raise returns
  \<open>error + 'a\<close> with \<open>Inl\<close> for the exception.
\<close>

datatype error =
    AttributeError
  | KeyError
  | RuntimeError
  | NotImplementedError
  | DoesNotExist
  | MultipleObjectsReturned
  | IndexError
  | TypeError
  | IntegrityError
  | AssertionError

text \<open>
  Field values and keyword-argument values. A model instance (a saved row) is a value
  too: \<open>create\<close> stores the shared instance under the key \<open>master\<close>.
\<close>

datatype val = NoneV | StrV string | IntV int | InstV row
and row = Row (row_pk: nat) (row_fields: "(string \<times> val) list")

text \<open>Python truthiness, as \<open>if not language_code\<close> and \<open>if self._language_code\<close> read it.\<close>

fun truthy :: "val \<Rightarrow> bool" where
  "truthy NoneV = False"
| "truthy (StrV s) = (s \<noteq> [])"
| "truthy (IntV i) = (i \<noteq> 0)"
| "truthy (InstV r) = True"

text \<open>
  A keyword dictionary is an association list with distinct keys, in iteration order:
  \<open>map_of\<close> reads a key, \<open>AList.update\<close> is \<open>d[k] = v\<close>, \<open>AList.delete\<close> removes a key.
\<close>

type_synonym kwargs = "(string \<times> val) list"

text \<open>
  Model classes and managers, as far as this module reads them:
  \<open>all_field_names\<close> is \<open>cls._meta.get_all_field_names()\<close> and
  \<open>manager_model\<close> is \<open>manager.model\<close>.
\<close>

record model_class =
  all_field_names :: "string list"

record manager =
  manager_model :: model_class

text \<open>
  Filter expressions. \<open>Q\<close> is Django's boolean tree node: a connector, a negation flag
  and the children, each a raw marker, a nested \<open>Q\<close> or a \<open>(key, value)\<close> pair.

  Modelled from the spec: \<open>R\<close> is defined in \<open>nani.utils\<close>, which is not among the
  sources. It is the raw pass-through marker of a filter expression; its payload is
  opaque to this module.
\<close>

datatype R = R "(string \<times> val) list"

datatype child = RChild R | QChild Q | Leaf string val
and Q = Q (connector: string) (negated: bool) (children: "child list")

text \<open>
  The where tree of a Django query, as \<open>get\<close> reads it: \<open>query.where.children\<close> is a
  list of nodes, each with a list of children, and of a child only
  \<open>child[0].field.name\<close> is read.
\<close>

datatype where_leaf =
  WhereLeaf (constraint_field_name: string) (lookup_type: string) (leaf_param: val)

datatype where_node = WhereNode (node_children: "where_leaf list")

section \<open>FieldTranslator\<close>

text \<open>
  The attributes of a \<open>TranslationMixin\<close> queryset. The four attributes that
  \<open>__init__\<close> sets carry the prefix \<open>u_\<close> for the leading underscore of the source
  (\<open>_local_field_names\<close>, \<open>_field_translator\<close>, \<open>_real_manager\<close>, \<open>_language_code\<close>);
  \<open>model\<close>, \<open>query\<close> and \<open>u_result_cache\<close> (\<open>_result_cache\<close>: the rows of an evaluated
  queryset, \<open>None\<close> before) are the base queryset's. \<open>_field_translator\<close> is a
  reference into the store of translator objects below, so that two querysets can hold
  the same translator.
\<close>

record 'q TranslationMixin =
  model :: model_class
  query :: 'q
  u_result_cache :: "row list option"
  u_local_field_names :: "string list option"
  u_field_translator :: "nat option"
  u_real_manager :: "manager option"
  u_language_code :: val

definition TranslationMixin_init ::
  "model_class \<Rightarrow> 'q \<Rightarrow> manager option \<Rightarrow> 'q TranslationMixin" where
  "TranslationMixin_init model_arg query_arg real =
     \<lparr>model = model_arg, query = query_arg,
      u_result_cache = None,
      u_local_field_names = None,
      u_field_translator = None,
      u_real_manager = real,
      u_language_code = NoneV\<rparr>"

text \<open>\<open>self._real_manager.model\<close>; the attribute access fails on \<open>None\<close>.\<close>

definition shared_model :: "'q TranslationMixin \<Rightarrow> error + model_class" where
  "shared_model self =
     (case u_real_manager self of
        None \<Rightarrow> Inl AttributeError
      | Some m \<Rightarrow> Inr (manager_model m))"

text \<open>
  \<open>FieldTranslator\<close> is a \<open>dict\<close> subclass: \<open>items\<close> holds the dictionary's own
  entries (the cache), next to the two tuples set by \<open>__init__\<close>.
\<close>

record FieldTranslator =
  shared_fields :: "string list"
  translated_fields :: "string list"
  items :: "(string \<times> string) list"

text \<open>\<open>key.startswith(names)\<close> with a tuple: some element of the tuple is a prefix of \<open>key\<close>.\<close>

definition startswith :: "string \<Rightarrow> string list \<Rightarrow> bool" where
  "startswith key names = list_ex (\<lambda>p. prefix p key) names"

text \<open>
  \<open>__init__(manager)\<close>, the manager being the queryset that owns the translator:
  \<open>shared_fields = tuple(shared names) + ('pk',)\<close>, and an empty dictionary.
\<close>

definition FieldTranslator_init :: "'q TranslationMixin \<Rightarrow> error + FieldTranslator" where
  "FieldTranslator_init manager =
     (case shared_model manager of
        Inl e \<Rightarrow> Inl e
      | Inr sm \<Rightarrow>
          Inr \<lparr>shared_fields = all_field_names sm @ [''pk''],
               translated_fields = all_field_names (model manager),
               items = []\<rparr>)"

definition build :: "FieldTranslator \<Rightarrow> string \<Rightarrow> string" where
  "build self key =
     (if startswith key (shared_fields self) then ''master__'' @ key else key)"

text \<open>
  \<open>get\<close>: build and store the entry when the key is not in the dictionary, then read it.
  The translator is returned updated.
\<close>

definition FieldTranslator_get :: "FieldTranslator \<Rightarrow> string \<Rightarrow> string \<times> FieldTranslator" where
  "FieldTranslator_get self key =
     (case map_of (items self) key of
        None \<Rightarrow>
          (let v = build self key
           in (v, self\<lparr>items := AList.update key v (items self)\<rparr>))
      | Some v \<Rightarrow> (v, self))"

text \<open>A translator after any sequence of \<open>get\<close> calls.\<close>

fun gets :: "FieldTranslator \<Rightarrow> string list \<Rightarrow> FieldTranslator" where
  "gets ft [] = ft"
| "gets ft (k # ks) = gets (snd (FieldTranslator_get ft k)) ks"

text \<open>Every cached entry is what \<open>build\<close> gives for its key.\<close>

definition cache_ok :: "FieldTranslator \<Rightarrow> bool" where
  "cache_ok ft = list_all (\<lambda>(k, v). v = build ft k) (items ft)"

section \<open>TranslationMixin: helpers and properties\<close>

text \<open>
  Translator objects live in a store: \<open>cells\<close> maps a reference to the object,
  \<open>next_ref\<close> is the next free reference. A queryset and the store are threaded through
  every method that can touch them.
\<close>

record store =
  cells :: "nat \<Rightarrow> FieldTranslator"
  next_ref :: nat

type_synonym 'q state = "'q TranslationMixin \<times> store"

text \<open>The property \<open>field_translator\<close>: created on first use, then kept on the queryset.\<close>

definition field_translator :: "'q state \<Rightarrow> error + (nat \<times> 'q state)" where
  "field_translator s =
     (case s of (self, st) \<Rightarrow>
        (case u_field_translator self of
           Some r \<Rightarrow> Inr (r, (self, st))
         | None \<Rightarrow>
             (case FieldTranslator_init self of
                Inl e \<Rightarrow> Inl e
              | Inr ft \<Rightarrow>
                  Inr (next_ref st,
                       (self\<lparr>u_field_translator := Some (next_ref st)\<rparr>,
                        st\<lparr>cells := (cells st)(next_ref st := ft),
                           next_ref := Suc (next_ref st)\<rparr>)))))"

text \<open>\<open>self.field_translator.get(key)\<close>.\<close>

definition field_translator_get :: "string \<Rightarrow> 'q state \<Rightarrow> error + (string \<times> 'q state)" where
  "field_translator_get key s =
     (case field_translator s of
        Inl e \<Rightarrow> Inl e
      | Inr (r, (self, st)) \<Rightarrow>
          (case FieldTranslator_get (cells st r) key of
             (v, ft) \<Rightarrow> Inr (v, (self, st\<lparr>cells := (cells st)(r := ft)\<rparr>))))"

text \<open>The property \<open>shared_local_field_names\<close>, cached in \<open>_local_field_names\<close>.\<close>

definition shared_local_field_names ::
  "'q TranslationMixin \<Rightarrow> error + (string list \<times> 'q TranslationMixin)" where
  "shared_local_field_names self =
     (case u_local_field_names self of
        Some names \<Rightarrow> Inr (names, self)
      | None \<Rightarrow>
          (case shared_model self of
             Inl e \<Rightarrow> Inl e
           | Inr sm \<Rightarrow>
               Inr (all_field_names sm,
                    self\<lparr>u_local_field_names := Some (all_field_names sm)\<rparr>)))"

section \<open>The expression rewriter\<close>

text \<open>
  \<open>_recurse_q\<close>. The loop over \<open>q.children\<close> is \<open>recurse_children\<close>, with the list
  \<open>newchildren\<close> as accumulator; \<open>q.children = newchildren; return q\<close> is the node with
  its children replaced. A nested \<open>Q\<close> child is rewritten by \<open>_recurse_q\<close> and the
  result is rewritten by \<open>_recurse_q\<close> again, as in the source. The expression is a
  tree: no \<open>Q\<close> object occurs twice in it.
\<close>

function recurse_q :: "Q \<Rightarrow> 'q state \<Rightarrow> error + (Q \<times> 'q state)"
  and recurse_children ::
    "child list \<Rightarrow> child list \<Rightarrow> 'q state \<Rightarrow> error + (child list \<times> 'q state)"
where
  "recurse_q (Q c n cs) s =
     (case recurse_children cs [] s of
        Inl e \<Rightarrow> Inl e
      | Inr (newchildren, s') \<Rightarrow> Inr (Q c n newchildren, s'))"
| "recurse_children [] newchildren s = Inr (newchildren, s)"
| "recurse_children (RChild r # cs) newchildren s =
     recurse_children cs (newchildren @ [RChild r]) s"
| "recurse_children (QChild q # cs) newchildren s =
     (case recurse_q q s of
        Inl e \<Rightarrow> Inl e
      | Inr (newq, s1) \<Rightarrow>
          (case recurse_q newq s1 of
             Inl e \<Rightarrow> Inl e
           | Inr (newq2, s2) \<Rightarrow> recurse_children cs (newchildren @ [QChild newq2]) s2))"
| "recurse_children (Leaf key v # cs) newchildren s =
     (case field_translator_get key s of
        Inl e \<Rightarrow> Inl e
      | Inr (key', s') \<Rightarrow> recurse_children cs (newchildren @ [Leaf key' v]) s')"
  by pat_completeness auto

text \<open>The rewrite keeps the size of the tree, which is what makes the second pass terminate.\<close>

lemma recurse_size_dom:
  "recurse_q_recurse_children_dom (Inl (q, s)) \<Longrightarrow>
     recurse_q q s = Inr (q', s') \<longrightarrow> size q' = size q"
  "recurse_q_recurse_children_dom (Inr (cs, acc, s)) \<Longrightarrow>
     recurse_children cs acc s = Inr (cs', s') \<longrightarrow>
       size_list size cs' = size_list size acc + size_list size cs"
proof (induction q s and cs acc s arbitrary: q' s' and cs' s' rule: recurse_q_recurse_children.pinduct)
  case (1 c n cs s)
  show ?case
  proof
    assume a: "recurse_q (Q c n cs) s = Inr (q', s')"
    from a "1.hyps" obtain cs' where 1: "recurse_children cs [] s = Inr (cs', s')" and q': "q' = Q c n cs'"
      by (auto simp: recurse_q.psimps split: sum.splits)
    show "size q' = size (Q c n cs)" using "1.IH" 1 q' by simp
  qed
next
  case (2 newchildren s)
  then show ?case
    by (simp add: recurse_children.psimps)
next
  case (3 r cs newchildren s)
  then show ?case
    by (simp add: recurse_children.psimps)
next
  case (4 q cs newchildren s)
  show ?case
  proof
    assume a: "recurse_children (QChild q # cs) newchildren s = Inr (cs', s')"
    from a "4.hyps" obtain newq s1 where 1: "recurse_q q s = Inr (newq, s1)"
      by (cases "recurse_q q s") (auto simp: recurse_children.psimps)
    from a "4.hyps" 1 obtain newq2 s2 where 2: "recurse_q newq s1 = Inr (newq2, s2)"
      by (cases "recurse_q newq s1") (auto simp: recurse_children.psimps)
    from a "4.hyps" 1 2 have 3: "recurse_children cs (newchildren @ [QChild newq2]) s2 = Inr (cs', s')"
      by (simp add: recurse_children.psimps)
    have "size newq = size q" using "4.IH"(1) 1 by simp
    moreover have "size newq2 = size newq" using "4.IH"(2)[OF 1 refl] 2 by simp
    moreover have "size_list size cs' = size_list size (newchildren @ [QChild newq2]) + size_list size cs"
      using "4.IH"(3)[OF 1 refl 2 refl] 3 by simp
    ultimately show "size_list size cs' = size_list size newchildren + size_list size (QChild q # cs)"
      by simp
  qed
next
  case (5 key v cs newchildren s)
  show ?case
  proof
    assume a: "recurse_children (Leaf key v # cs) newchildren s = Inr (cs', s')"
    from a "5.hyps" obtain k' s1 where 1: "field_translator_get key s = Inr (k', s1)"
      by (cases "field_translator_get key s") (auto simp: recurse_children.psimps)
    from a "5.hyps" 1 have 3: "recurse_children cs (newchildren @ [Leaf k' v]) s1 = Inr (cs', s')"
      by (simp add: recurse_children.psimps)
    have "size_list size cs' = size_list size (newchildren @ [Leaf k' v]) + size_list size cs"
      using "5.IH"[OF 1 refl] 3 by simp
    then show "size_list size cs' = size_list size newchildren + size_list size (Leaf key v # cs)"
      by simp
  qed
qed


termination recurse_q
proof (relation "measure (\<lambda>x. case x of Inl (q, s) \<Rightarrow> size q
                                   | Inr (cs, acc, s) \<Rightarrow> size_list size cs)")
qed (auto dest: recurse_size_dom(1)[rule_format])

text \<open>
  \<open>_translate\<close>: the keyword loop fills \<open>newkwargs\<close> through the resolver, the
  argument loop appends the rewritten \<open>Q\<close> objects to \<open>newargs\<close>.
\<close>

fun translate_kwargs :: "kwargs \<Rightarrow> kwargs \<Rightarrow> 'q state \<Rightarrow> error + (kwargs \<times> 'q state)" where
  "translate_kwargs [] newkwargs s = Inr (newkwargs, s)"
| "translate_kwargs ((key, v) # rest) newkwargs s =
     (case field_translator_get key s of
        Inl e \<Rightarrow> Inl e
      | Inr (key', s') \<Rightarrow> translate_kwargs rest (AList.update key' v newkwargs) s')"

fun translate_args :: "Q list \<Rightarrow> Q list \<Rightarrow> 'q state \<Rightarrow> error + (Q list \<times> 'q state)" where
  "translate_args [] newargs s = Inr (newargs, s)"
| "translate_args (q # rest) newargs s =
     (case recurse_q q s of
        Inl e \<Rightarrow> Inl e
      | Inr (q', s') \<Rightarrow> translate_args rest (newargs @ [q']) s')"

definition translate ::
  "Q list \<Rightarrow> kwargs \<Rightarrow> 'q state \<Rightarrow> error + ((Q list \<times> kwargs) \<times> 'q state)" where
  "translate args kwargs s =
     (case translate_kwargs kwargs [] s of
        Inl e \<Rightarrow> Inl e
      | Inr (newkwargs, s1) \<Rightarrow>
          (case translate_args args [] s1 of
             Inl e \<Rightarrow> Inl e
           | Inr (newargs, s2) \<Rightarrow> Inr ((newargs, newkwargs), s2)))"

section \<open>The queryset API\<close>

text \<open>
  What this module consumes from Django, as parameters: the active language
  (\<open>get_language()\<close>), the base class's \<open>_clone\<close>, the operations on the query object
  that the base chaining methods apply, the where tree's children, the base \<open>get\<close>,
  the rows that the base \<open>__iter__\<close> yields for a queryset, and whether an insert
  through \<open>Manager.create\<close> raises (\<open>Manager_create_error\<close>: the exception for a model,
  the table as it stands and the keyword arguments, \<open>None\<close> when the insert goes through).
\<close>

record 'q django =
  get_language :: string
  QuerySet_clone :: "'q TranslationMixin \<Rightarrow> bool \<Rightarrow> kwargs \<Rightarrow> 'q TranslationMixin"
  Query_add_select_related :: "'q \<Rightarrow> string list \<Rightarrow> 'q"
  Query_add_q :: "'q \<Rightarrow> Q list \<Rightarrow> kwargs \<Rightarrow> 'q"
  Query_set_limits :: "'q \<Rightarrow> nat \<Rightarrow> nat \<Rightarrow> 'q"
  Query_where_children :: "'q \<Rightarrow> where_node list"
  QuerySet_get :: "'q TranslationMixin \<Rightarrow> Q list \<Rightarrow> kwargs \<Rightarrow> error + row"
  QuerySet_iter :: "'q TranslationMixin \<Rightarrow> row list"
  Manager_create_error :: "model_class \<Rightarrow> row list \<Rightarrow> kwargs \<Rightarrow> error option"

text \<open>
  \<open>_clone\<close>: the base class builds the clone (of class \<open>self.__class__\<close>), then the four
  attributes are copied from \<open>self\<close>.
\<close>

definition clone ::
  "'q django \<Rightarrow> 'q TranslationMixin \<Rightarrow> bool \<Rightarrow> kwargs \<Rightarrow> 'q TranslationMixin" where
  "clone dj self setup_arg kwargs =
     (let cloned = QuerySet_clone dj self setup_arg kwargs
      in cloned\<lparr>u_local_field_names := u_local_field_names self,
                u_field_translator := u_field_translator self,
                u_language_code := u_language_code self,
                u_real_manager := u_real_manager self\<rparr>)"

text \<open>
  The base class's chaining methods \<open>filter\<close> and \<open>select_related\<close>: each takes
  \<open>self._clone()\<close>, which is the method above, and edits the clone's query.
\<close>

definition QuerySet_filter ::
  "'q django \<Rightarrow> 'q TranslationMixin \<Rightarrow> Q list \<Rightarrow> kwargs \<Rightarrow> 'q TranslationMixin" where
  "QuerySet_filter dj self args kwargs =
     (let c = clone dj self False []
      in c\<lparr>query := Query_add_q dj (query c) args kwargs\<rparr>)"

definition QuerySet_select_related ::
  "'q django \<Rightarrow> 'q TranslationMixin \<Rightarrow> string list \<Rightarrow> 'q TranslationMixin" where
  "QuerySet_select_related dj self field_names =
     (let obj = clone dj self False []
      in obj\<lparr>query := Query_add_select_related dj (query obj) field_names\<rparr>)"

text \<open>
  \<open>filter\<close>: translate the arguments, then the base class's \<open>filter\<close>. The result is
  the new queryset; the receiver and the store come back updated.
\<close>

definition filter_qs ::
  "'q django \<Rightarrow> Q list \<Rightarrow> kwargs \<Rightarrow> 'q state \<Rightarrow> error + ('q TranslationMixin \<times> 'q state)" where
  "filter_qs dj args kwargs s =
     (case translate args kwargs s of
        Inl e \<Rightarrow> Inl e
      | Inr ((newargs, newkwargs), (self, st)) \<Rightarrow>
          Inr (QuerySet_filter dj self newargs newkwargs, (self, st)))"

text \<open>\<open>language\<close>: a falsy code is replaced by the active language.\<close>

definition language ::
  "'q django \<Rightarrow> val \<Rightarrow> 'q state \<Rightarrow> error + ('q TranslationMixin \<times> 'q state)" where
  "language dj language_code s =
     (case s of (self, st) \<Rightarrow>
        (let code = (if \<not> truthy language_code then StrV (get_language dj) else language_code)
         in filter_qs dj [] [(''language_code'', code)]
              (self\<lparr>u_language_code := code\<rparr>, st)))"

text \<open>
  The two loops of \<open>get\<close> over \<open>qs.query.where.children\<close>; \<open>found\<close> is the flag they
  set.
\<close>

fun scan_children :: "where_leaf list \<Rightarrow> bool \<Rightarrow> bool" where
  "scan_children [] found = found"
| "scan_children (c # cs) found =
     scan_children cs (if constraint_field_name c = ''language_code'' then True else found)"

fun scan_where :: "where_node list \<Rightarrow> bool \<Rightarrow> bool" where
  "scan_where [] found = found"
| "scan_where (w # ws) found =
     scan_where ws
       (if node_children w \<noteq> [] then scan_children (node_children w) found else found)"

text \<open>
  \<open>get\<close>, in two steps. \<open>get_scope\<close> is the method up to the lookup: it returns the
  queryset \<open>qs\<close> and the arguments that the lookup receives. \<open>get\<close> then runs the base
  class's \<open>get\<close> on them and combines the row found.
\<close>

definition get_scope ::
  "'q django \<Rightarrow> Q list \<Rightarrow> kwargs \<Rightarrow> 'q state \<Rightarrow>
     error + (('q TranslationMixin \<times> Q list \<times> kwargs) \<times> 'q state)" where
  "get_scope dj args kwargs s =
     (case translate args kwargs s of
        Inl e \<Rightarrow> Inl e
      | Inr ((newargs, newkwargs), (self, st)) \<Rightarrow>
          (let qs = QuerySet_select_related dj self [''master'']
           in (case map_of newkwargs ''language_code'' of
                 Some language_code \<Rightarrow>
                   (case language dj language_code (qs, st) of
                      Inl e \<Rightarrow> Inl e
                    | Inr (qs', (_, st')) \<Rightarrow>
                        Inr ((qs', newargs, AList.delete ''language_code'' newkwargs),
                             (self, st')))
               | None \<Rightarrow>
                   (if scan_where (Query_where_children dj (query qs)) False
                    then Inr ((qs, newargs, newkwargs), (self, st))
                    else (case language dj NoneV (qs, st) of
                            Inl e \<Rightarrow> Inl e
                          | Inr (qs', (_, st')) \<Rightarrow>
                              Inr ((qs', newargs, newkwargs), (self, st')))))))"

definition get ::
  "'q django \<Rightarrow> (row \<Rightarrow> 'i) \<Rightarrow> Q list \<Rightarrow> kwargs \<Rightarrow> 'q state \<Rightarrow> error + ('i \<times> 'q state)" where
  "get dj combine args kwargs s =
     (case get_scope dj args kwargs s of
        Inl e \<Rightarrow> Inl e
      | Inr ((qs, newargs, newkwargs), s') \<Rightarrow>
          (case QuerySet_get dj qs newargs newkwargs of
             Inl e \<Rightarrow> Inl e
           | Inr trans_obj \<Rightarrow> Inr (combine trans_obj, s')))"

text \<open>\<open>__iter__\<close> combines every row that the base class's iteration yields.\<close>

definition iter :: "'q django \<Rightarrow> (row \<Rightarrow> 'i) \<Rightarrow> 'q TranslationMixin \<Rightarrow> 'i list" where
  "iter dj combine self = map (\<lambda>obj. combine obj) (QuerySet_iter dj self)"

text \<open>
  What indexing returns: a raw translation row, or a combined instance.
\<close>

datatype 'i indexed = RawRow row | CombinedInstance 'i

text \<open>
  The base class's \<open>__getitem__\<close> for an integer index \<open>k\<close>, which is Django's and is
  called through \<open>super\<close>. A negative index fails its assertion. When the result cache
  is filled it returns \<open>self._result_cache[k]\<close>. Otherwise it takes \<open>qs = self._clone()\<close>,
  limits the clone's query to the position \<open>k\<close> and returns \<open>list(qs)[0]\<close>: the list is
  built by the \<open>__iter__\<close> of the queryset's class, which is the overriding method above
  and is passed here as \<open>iter_method\<close>.
\<close>

definition QuerySet_getitem ::
  "'q django \<Rightarrow> ('q TranslationMixin \<Rightarrow> 'i list) \<Rightarrow> 'q TranslationMixin \<Rightarrow> int \<Rightarrow>
     error + 'i indexed" where
  "QuerySet_getitem dj iter_method self k =
     (if k < 0 then Inl AssertionError
      else (case u_result_cache self of
              Some cache \<Rightarrow>
                (if nat k < length cache then Inr (RawRow (cache ! nat k)) else Inl IndexError)
            | None \<Rightarrow>
                (let qs = clone dj self False [];
                     qs' = qs\<lparr>query := Query_set_limits dj (query qs) (nat k) (nat k + 1)\<rparr>
                 in (case iter_method qs' of
                       [] \<Rightarrow> Inl IndexError
                     | x # xs \<Rightarrow> Inr (CombinedInstance x)))))"

text \<open>\<open>__getitem__\<close> hands the call to the base class.\<close>

definition getitem ::
  "'q django \<Rightarrow> (row \<Rightarrow> 'i) \<Rightarrow> 'q TranslationMixin \<Rightarrow> int \<Rightarrow> error + 'i indexed" where
  "getitem dj combine self item = QuerySet_getitem dj (iter dj combine) self item"

section \<open>create\<close>

text \<open>
  The two tables behind the shared model and the translations model. Django's
  \<open>Manager.create(**kwargs)\<close> builds an instance of the manager's model from the keyword
  arguments and saves it. It can raise (a keyword that the model does not accept, a
  constraint of the table), and then nothing is written; otherwise it inserts one row
  that holds the keyword arguments, under the next primary key, and returns it.
\<close>

record db =
  shared_table :: "row list"
  translations_table :: "row list"

definition Manager_create ::
  "'q django \<Rightarrow> model_class \<Rightarrow> row list \<Rightarrow> kwargs \<Rightarrow> error + (row \<times> row list)" where
  "Manager_create dj model_arg table kwargs =
     (case Manager_create_error dj model_arg table kwargs of
        Some e \<Rightarrow> Inl e
      | None \<Rightarrow> (let obj = Row (Suc (length table)) kwargs in Inr (obj, table @ [obj])))"

text \<open>
  The loop \<open>for key in kwargs.keys()\<close>: a key that is not among
  \<open>self.shared_local_field_names\<close> is popped from \<open>kwargs\<close> into \<open>tkwargs\<close>. The property
  is read once per key, as in the source; \<open>pop\<close> raises \<open>KeyError\<close> on a missing key.
\<close>

fun split_kwargs ::
  "string list \<Rightarrow> kwargs \<Rightarrow> kwargs \<Rightarrow> 'q TranslationMixin \<Rightarrow>
     error + ((kwargs \<times> kwargs) \<times> 'q TranslationMixin)" where
  "split_kwargs [] kwargs tkwargs self = Inr ((kwargs, tkwargs), self)"
| "split_kwargs (key # keys) kwargs tkwargs self =
     (case shared_local_field_names self of
        Inl e \<Rightarrow> Inl e
      | Inr (names, self') \<Rightarrow>
          (if key \<notin> set names
           then (case map_of kwargs key of
                   None \<Rightarrow> Inl KeyError
                 | Some v \<Rightarrow>
                     split_kwargs keys (AList.delete key kwargs) (AList.update key v tkwargs) self')
           else split_kwargs keys kwargs tkwargs self'))"

text \<open>
  The step \<open>enforce a language_code\<close> of \<open>create\<close>: when \<open>tkwargs\<close> has no key
  \<open>language_code\<close>, it is set to the queryset's \<open>_language_code\<close> if that is truthy,
  else to the active language.
\<close>

definition enforce_language :: "'q django \<Rightarrow> 'q TranslationMixin \<Rightarrow> kwargs \<Rightarrow> kwargs" where
  "enforce_language dj self tkwargs =
     (if map_of tkwargs ''language_code'' = None
      then (if truthy (u_language_code self)
            then AList.update ''language_code'' (u_language_code self) tkwargs
            else AList.update ''language_code'' (StrV (get_language dj)) tkwargs)
      else tkwargs)"

text \<open>
  \<open>create\<close>. The result pairs what the call returns or raises with the database as the
  call leaves it: a row inserted before an exception stays. \<open>self._real_manager\<close> is the
  manager of the shared model, \<open>self.translations_manager\<close> is the manager of
  \<open>self.model\<close>; \<open>combine\<close> (from \<open>nani.utils\<close>) is a parameter.
\<close>

definition create ::
  "'q django \<Rightarrow> (row \<Rightarrow> 'i) \<Rightarrow> kwargs \<Rightarrow> 'q TranslationMixin \<Rightarrow> db \<Rightarrow>
     (error + ('i \<times> 'q TranslationMixin)) \<times> db" where
  "create dj combine kwargs self d =
     (case split_kwargs (map fst kwargs) kwargs [] self of
        Inl e \<Rightarrow> (Inl e, d)
      | Inr ((kwargs', tkwargs), self') \<Rightarrow>
          (let tkwargs1 = enforce_language dj self' tkwargs;
               r = (if map_of tkwargs1 ''master'' \<noteq> None
                    then (if kwargs' \<noteq> [] then Inl RuntimeError else Inr (tkwargs1, d))
                    else (case u_real_manager self' of
                            None \<Rightarrow> Inl AttributeError
                          | Some real \<Rightarrow>
                              (case Manager_create dj (manager_model real) (shared_table d)
                                      kwargs' of
                                 Inl e \<Rightarrow> Inl e
                               | Inr (shared, table) \<Rightarrow>
                                   Inr (AList.update ''master'' (InstV shared) tkwargs1,
                                        d\<lparr>shared_table := table\<rparr>))))
           in (case r of
                 Inl e \<Rightarrow> (Inl e, d)
               | Inr (tkwargs2, d1) \<Rightarrow>
                   (case Manager_create dj (model self') (translations_table d1) tkwargs2 of
                      Inl e \<Rightarrow> (Inl e, d1)
                    | Inr (trans_obj, table) \<Rightarrow>
                        (Inr (combine trans_obj, self'),
                         d1\<lparr>translations_table := table\<rparr>)))))"

text \<open>
  The two halves into which the loop splits a keyword dictionary, written as filters:
  the keywords whose key is a shared field name, and the others.
\<close>

definition shared_part :: "string list \<Rightarrow> kwargs \<Rightarrow> kwargs" where
  "shared_part names kwargs = filter (\<lambda>(k, v). k \<in> set names) kwargs"

definition translated_part :: "string list \<Rightarrow> kwargs \<Rightarrow> kwargs" where
  "translated_part names kwargs = filter (\<lambda>(k, v). k \<notin> set names) kwargs"

text \<open>
  When no \<open>master\<close> is given: the row that the shared insert writes, and the keyword
  arguments of the translation insert that follows it.
\<close>

definition shared_row :: "db \<Rightarrow> string list \<Rightarrow> kwargs \<Rightarrow> row" where
  "shared_row d names kwargs = Row (Suc (length (shared_table d))) (shared_part names kwargs)"

definition translation_kwargs ::
  "'q django \<Rightarrow> 'q TranslationMixin \<Rightarrow> db \<Rightarrow> string list \<Rightarrow> kwargs \<Rightarrow> kwargs" where
  "translation_kwargs dj self d names kwargs =
     AList.update ''master'' (InstV (shared_row d names kwargs))
       (enforce_language dj self (translated_part names kwargs))"

section \<open>Operations that are not supported\<close>

text \<open>Each of these methods is the single statement \<open>raise NotImplementedError()\<close>.\<close>

definition aggregate :: "'q TranslationMixin \<Rightarrow> val list \<Rightarrow> kwargs \<Rightarrow> error + 'a" where
  "aggregate self args kwargs = Inl NotImplementedError"

definition latest :: "'q TranslationMixin \<Rightarrow> val \<Rightarrow> error + 'a" where
  "latest self field_name = Inl NotImplementedError"

definition in_bulk :: "'q TranslationMixin \<Rightarrow> val list \<Rightarrow> error + 'a" where
  "in_bulk self id_list = Inl NotImplementedError"

definition delete_qs :: "'q TranslationMixin \<Rightarrow> error + 'a" where
  "delete_qs self = Inl NotImplementedError"

definition update_qs :: "'q TranslationMixin \<Rightarrow> kwargs \<Rightarrow> error + 'a" where
  "update_qs self kwargs = Inl NotImplementedError"

definition values_qs :: "'q TranslationMixin \<Rightarrow> string list \<Rightarrow> error + 'a" where
  "values_qs self field_names = Inl NotImplementedError"

definition values_list :: "'q TranslationMixin \<Rightarrow> string list \<Rightarrow> kwargs \<Rightarrow> error + 'a" where
  "values_list self field_names kwargs = Inl NotImplementedError"

definition dates :: "'q TranslationMixin \<Rightarrow> string \<Rightarrow> string \<Rightarrow> string \<Rightarrow> error + 'a" where
  "dates self field_name kind order = Inl NotImplementedError"

definition exclude :: "'q TranslationMixin \<Rightarrow> Q list \<Rightarrow> kwargs \<Rightarrow> error + 'a" where
  "exclude self args kwargs = Inl NotImplementedError"

definition complex_filter :: "'q TranslationMixin \<Rightarrow> val \<Rightarrow> error + 'a" where
  "complex_filter self filter_obj = Inl NotImplementedError"

definition annotate :: "'q TranslationMixin \<Rightarrow> val list \<Rightarrow> kwargs \<Rightarrow> error + 'a" where
  "annotate self args kwargs = Inl NotImplementedError"

definition reverse :: "'q TranslationMixin \<Rightarrow> error + 'a" where
  "reverse self = Inl NotImplementedError"

definition defer_qs :: "'q TranslationMixin \<Rightarrow> string list \<Rightarrow> error + 'a" where
  "defer_qs self field_names = Inl NotImplementedError"

definition only :: "'q TranslationMixin \<Rightarrow> string list \<Rightarrow> error + 'a" where
  "only self field_names = Inl NotImplementedError"

section \<open>The combined instance, and a small concrete setting\<close>

text \<open>
  Modelled from the spec: \<open>combine\<close> is defined in \<open>nani.utils\<close>, which is not among the
  sources. Given a translation row it merges the shared and the translation attributes
  into one object: here the fields of the shared row found under \<open>master\<close>, followed by
  the translation row's own fields. The methods above take \<open>combine\<close> as a parameter;
  this definition only instantiates it in examples.
\<close>

definition combine_spec :: "row \<Rightarrow> kwargs" where
  "combine_spec t =
     (case map_of (row_fields t) ''master'' of
        Some (InstV m) \<Rightarrow> row_fields m @ AList.delete ''master'' (row_fields t)
      | _ \<Rightarrow> row_fields t)"

text \<open>
  A shared model with the fields \<open>id\<close>, \<open>title\<close> and the reverse relation
  \<open>translations\<close>, and its translations model.
\<close>

definition example_shared :: model_class where
  "example_shared = \<lparr>all_field_names = [''id'', ''title'', ''translations'']\<rparr>"

definition example_translations :: model_class where
  "example_translations =
     \<lparr>all_field_names = [''id'', ''language_code'', ''master'', ''subtitle'', ''title_short'']\<rparr>"

definition example_rows :: "row list" where
  "example_rows =
     [Row 1 [(''subtitle'', StrV ''one''), (''language_code'', StrV ''en''),
             (''master'', InstV (Row 1 [(''title'', StrV ''first'')]))],
      Row 2 [(''subtitle'', StrV ''eins''), (''language_code'', StrV ''de''),
             (''master'', InstV (Row 1 [(''title'', StrV ''first'')]))]]"

text \<open>
  A stand-in for Django. Its query object holds the where nodes and the limits:
  \<open>filter\<close> appends one node per keyword, iteration yields the example rows within the
  limits, the base \<open>_clone\<close> builds a fresh queryset on the same model and query, the base
  \<open>get\<close> answers with a row that shows the language scope and the keywords it was called
  with, and an insert raises \<open>TypeError\<close> for a keyword that is neither a field name of
  the model nor \<open>pk\<close>.
\<close>

record example_query =
  where_nodes :: "where_node list"
  limits :: "(nat \<times> nat) option"

definition example_django :: "example_query django" where
  "example_django =
     \<lparr>get_language = ''en'',
      QuerySet_clone = (\<lambda>self setup_arg kw. TranslationMixin_init (model self) (query self) None),
      Query_add_select_related = (\<lambda>q names. q),
      Query_add_q = (\<lambda>q args kw.
         q\<lparr>where_nodes := where_nodes q @ map (\<lambda>(k, v). WhereNode [WhereLeaf k ''exact'' v]) kw\<rparr>),
      Query_set_limits = (\<lambda>q low high. q\<lparr>limits := Some (low, high)\<rparr>),
      Query_where_children = where_nodes,
      QuerySet_get = (\<lambda>qs args kw. Inr (Row 1 ((''scope'', u_language_code qs) # kw))),
      QuerySet_iter = (\<lambda>qs. case limits (query qs) of
                               None \<Rightarrow> example_rows
                             | Some (low, high) \<Rightarrow> take (high - low) (drop low example_rows)),
      Manager_create_error = (\<lambda>m table kw.
         if list_all (\<lambda>(k, v). k \<in> set (all_field_names m) \<or> k = ''pk'') kw
         then None else Some TypeError)\<rparr>"

definition example_queryset :: "example_query TranslationMixin" where
  "example_queryset =
     TranslationMixin_init example_translations \<lparr>where_nodes = [], limits = None\<rparr>
       (Some \<lparr>manager_model = example_shared\<rparr>)"

definition example_store :: store where
  "example_store =
     \<lparr>cells = (\<lambda>r. \<lparr>shared_fields = [], translated_fields = [], items = []\<rparr>), next_ref = 0\<rparr>"

definition example_db :: db where
  "example_db = \<lparr>shared_table = [], translations_table = []\<rparr>"

text \<open>
  The same queryset after \<open>language('de')\<close> and one lookup of \<open>title\<close>: it holds the
  language scope and a reference to its translator, which has cached the lookup.
\<close>

definition example_scoped :: "example_query TranslationMixin" where
  "example_scoped =
     example_queryset\<lparr>u_field_translator := Some 0, u_language_code := StrV ''de''\<rparr>"

definition example_scoped_store :: store where
  "example_scoped_store =
     \<lparr>cells = (\<lambda>r. \<lparr>shared_fields = [''id'', ''title'', ''translations'', ''pk''],
                      translated_fields =
                        [''id'', ''language_code'', ''master'', ''subtitle'', ''title_short''],
                      items = [(''title'', ''master__title'')]\<rparr>),
      next_ref = 1\<rparr>"

text \<open>A queryset whose shared model has a field named \<open>master\<close> of its own.\<close>

definition example_master_queryset :: "example_query TranslationMixin" where
  "example_master_queryset =
     TranslationMixin_init example_translations \<lparr>where_nodes = [], limits = None\<rparr>
       (Some \<lparr>manager_model = \<lparr>all_field_names = [''id'', ''master'', ''translations'']\<rparr>\<rparr>)"

text \<open>The example queryset once evaluated: its result cache holds the example rows.\<close>

definition example_evaluated :: "example_query TranslationMixin" where
  "example_evaluated = example_queryset\<lparr>u_result_cache := Some example_rows\<rparr>"


text \<open>
  The example queryset as \<open>language('fr')\<close> returns it: the where tree holds the
  \<open>language_code\<close> filter, and the queryset its scope and its translator.
\<close>

definition example_french :: "example_query TranslationMixin" where
  "example_french =
     example_queryset
       \<lparr>query := \<lparr>where_nodes = [WhereNode [WhereLeaf ''language_code'' ''exact'' (StrV ''fr'')]],
                  limits = None\<rparr>,
        u_field_translator := Some 0, u_language_code := StrV ''fr''\<rparr>"
section \<open>Consistent states\<close>

text \<open>
  A queryset wired to the real manager \<open>real\<close> is in a consistent state when its
  translator, if it has one already, was built for that manager's model and holds only
  entries made by \<open>get\<close>. This is how \<open>TranslationManager.get_query_set\<close> and the methods
  above leave every queryset.
\<close>

definition state_ok :: "manager \<Rightarrow> 'q state \<Rightarrow> bool" where
  "state_ok real s =
     (case s of (self, st) \<Rightarrow>
        u_real_manager self = Some real \<and>
        (case u_field_translator self of
           None \<Rightarrow> True
         | Some r \<Rightarrow>
             shared_fields (cells st r) = all_field_names (manager_model real) @ [''pk''] \<and>
             cache_ok (cells st r)))"

text \<open>
  The reference under which the queryset's translator is found once the property
  \<open>field_translator\<close> has been read: the one it holds, or the next free one.
\<close>

definition translator_ref :: "'q state \<Rightarrow> nat" where
  "translator_ref s =
     (case s of (self, st) \<Rightarrow>
        (case u_field_translator self of None \<Rightarrow> next_ref st | Some r \<Rightarrow> r))"

text \<open>
  The queryset in which \<open>get\<close> looks up when it scopes to the language \<open>code\<close>:
  \<open>self.select_related('master')\<close>, then on that clone \<open>language(code)\<close>, which sets
  \<open>_language_code\<close>, reads the translator and returns the base class's
  \<open>filter(language_code=code)\<close>.
\<close>

definition language_scoped :: "'q django \<Rightarrow> 'q state \<Rightarrow> val \<Rightarrow> 'q TranslationMixin" where
  "language_scoped dj s code =
     (case s of (self, st) \<Rightarrow>
        QuerySet_filter dj
          ((QuerySet_select_related dj self [''master''])
             \<lparr>u_field_translator := Some (translator_ref (self, st)),
              u_language_code := code\<rparr>)
          [] [(''language_code'', code)])"

section \<open>The Field Name Resolver\<close>

lemma build_items_update [simp]: "build (ft\<lparr>items := xs\<rparr>) k = build ft k"
  by (simp add: build_def)

lemma cache_ok_lookup:
  "cache_ok ft \<Longrightarrow> map_of (items ft) k = Some v \<Longrightarrow> v = build ft k"
  by (auto simp: cache_ok_def list_all_iff dest: map_of_SomeD)

lemma FieldTranslator_get_value:
  "cache_ok ft \<Longrightarrow> fst (FieldTranslator_get ft k) = build ft k"
  by (auto simp: FieldTranslator_get_def Let_def dest: cache_ok_lookup split: option.splits)

lemma list_all_update_fresh:
  "list_all P xs \<Longrightarrow> P (k, v) \<Longrightarrow> list_all P (AList.update k v xs)"
  by (induction xs) (auto)

lemma FieldTranslator_get_cache_ok:
  "cache_ok ft \<Longrightarrow> cache_ok (snd (FieldTranslator_get ft k))"
  by (auto simp: FieldTranslator_get_def Let_def cache_ok_def
           intro: list_all_update_fresh split: option.splits)

lemma FieldTranslator_get_shared_fields [simp]:
  "shared_fields (snd (FieldTranslator_get ft k)) = shared_fields ft"
  by (simp add: FieldTranslator_get_def Let_def split: option.splits)

lemma FieldTranslator_init_Inr:
  "shared_model m = Inr sm \<Longrightarrow>
   FieldTranslator_init m =
     Inr \<lparr>shared_fields = all_field_names sm @ [''pk''],
          translated_fields = all_field_names (model m), items = []\<rparr>"
  by (simp add: FieldTranslator_init_def)

lemma FieldTranslator_init_cache_ok:
  "FieldTranslator_init m = Inr ft \<Longrightarrow> cache_ok ft"
  by (auto simp: FieldTranslator_init_def cache_ok_def split: sum.splits)

lemma gets_cache_ok: "cache_ok ft \<Longrightarrow> cache_ok (gets ft ks)"
  by (induction ks arbitrary: ft) (simp_all add: FieldTranslator_get_cache_ok)

lemma gets_shared_fields [simp]: "shared_fields (gets ft ks) = shared_fields ft"
  by (induction ks arbitrary: ft) simp_all

lemma startswith_member: "f \<in> set names \<Longrightarrow> startswith f names"
  by (auto simp: startswith_def list_ex_iff)

text \<open>
  What the resolver computes on any translator reached from \<open>__init__\<close> by \<open>get\<close> calls:
  the prefix test of \<open>build\<close>, whatever the cache holds.
\<close>

lemma resolver_value:
  assumes "shared_model m = Inr sm" and "FieldTranslator_init m = Inr ft"
  shows "fst (FieldTranslator_get (gets ft ks) k) =
     (if startswith k (all_field_names sm @ [''pk'']) then ''master__'' @ k else k)"
proof -
  have "cache_ok (gets ft ks)"
    using assms(2) by (simp add: gets_cache_ok FieldTranslator_init_cache_ok)
  then have "fst (FieldTranslator_get (gets ft ks) k) = build (gets ft ks) k"
    by (rule FieldTranslator_get_value)
  moreover have "shared_fields ft = all_field_names sm @ [''pk'']"
    using assms by (auto simp: FieldTranslator_init_Inr)
  ultimately show ?thesis
    by (simp add: build_def)
qed

text \<open>
  C1. The claim, like the class's docstring (\<open>Translates *shared* field names\<close>), says
  that a name of the shared model's field-name set (with \<open>pk\<close>) resolves to
  \<open>master__\<close> followed by the name and that every other name, a translation-only name
  above all, is returned unchanged. \<open>build\<close> does not test membership: it tests
  \<open>key.startswith(self.shared_fields)\<close>, whether a shared name is a prefix of the key,
  and never consults \<open>translated_fields\<close>. In the example setting the shared names are
  \<open>id\<close>, \<open>title\<close>, \<open>translations\<close>; the name \<open>title_short\<close> is not among them, it is a
  field of the translations model, and the resolver built by \<open>__init__\<close> still answers
  \<open>master__title_short\<close>, because \<open>title\<close> is a prefix of it.
\<close>

theorem resolver_rewrites_translation_only_name:
  "''title_short'' \<notin> set (all_field_names example_shared @ [''pk''])
   \<and> ''title_short'' \<in> set (all_field_names example_translations)
   \<and> FieldTranslator_init example_queryset =
       Inr \<lparr>shared_fields = [''id'', ''title'', ''translations'', ''pk''],
            translated_fields = [''id'', ''language_code'', ''master'', ''subtitle'', ''title_short''],
            items = []\<rparr>
   \<and> fst (FieldTranslator_get
        \<lparr>shared_fields = [''id'', ''title'', ''translations'', ''pk''],
         translated_fields = [''id'', ''language_code'', ''master'', ''subtitle'', ''title_short''],
         items = []\<rparr>
        ''title_short'') = ''master__title_short''
   \<and> map_sum id fst (field_translator_get ''title_short'' (example_queryset, example_store)) =
       Inr ''master__title_short''"
  by (simp add: field_translator_get_def field_translator_def FieldTranslator_get_def
        FieldTranslator_init_def build_def startswith_def Let_def
        example_shared_def example_translations_def example_queryset_def example_store_def
        TranslationMixin_init_def shared_model_def)

section \<open>Unsupported operations, cloning, iteration and indexing\<close>

text \<open>
  C7. Each of \<open>aggregate\<close>, \<open>latest\<close>, \<open>in_bulk\<close>, \<open>delete\<close>, \<open>update\<close>, \<open>values\<close>,
  \<open>values_list\<close>, \<open>dates\<close>, \<open>exclude\<close>, \<open>complex_filter\<close>, \<open>annotate\<close>, \<open>reverse\<close>,
  \<open>defer\<close> and \<open>only\<close> raises \<open>NotImplementedError\<close> on every queryset and for every
  argument list; none of them returns a value.
\<close>

theorem unsupported_operations_raise:
  "aggregate self args kwargs = Inl NotImplementedError
   \<and> latest self field_name = Inl NotImplementedError
   \<and> in_bulk self id_list = Inl NotImplementedError
   \<and> delete_qs self = Inl NotImplementedError
   \<and> update_qs self kwargs = Inl NotImplementedError
   \<and> values_qs self field_names = Inl NotImplementedError
   \<and> values_list self field_names kwargs = Inl NotImplementedError
   \<and> dates self date_field kind order_arg = Inl NotImplementedError
   \<and> exclude self qargs kwargs = Inl NotImplementedError
   \<and> complex_filter self filter_obj = Inl NotImplementedError
   \<and> annotate self args kwargs = Inl NotImplementedError
   \<and> reverse self = Inl NotImplementedError
   \<and> defer_qs self field_names = Inl NotImplementedError
   \<and> only self field_names = Inl NotImplementedError"
  by (simp add: aggregate_def latest_def in_bulk_def delete_qs_def update_qs_def values_qs_def
        values_list_def dates_def exclude_def complex_filter_def annotate_def reverse_def
        defer_qs_def only_def)

lemma clone_attributes [simp]:
  "u_local_field_names (clone dj self b kw) = u_local_field_names self"
  "u_field_translator (clone dj self b kw) = u_field_translator self"
  "u_language_code (clone dj self b kw) = u_language_code self"
  "u_real_manager (clone dj self b kw) = u_real_manager self"
  "model (clone dj self b kw) = model (QuerySet_clone dj self b kw)"
  "query (clone dj self b kw) = query (QuerySet_clone dj self b kw)"
  by (simp_all add: clone_def Let_def)

text \<open>
  C8. Whatever the base class's \<open>_clone\<close> returns, the clone has the cached field-name
  list, the field translator, the language scope and the real manager of the original.
  The translator is the same object: the clone holds the same reference, and reading
  the property \<open>field_translator\<close> on the clone returns that reference and leaves the store
  as it is, so nothing is rebuilt. Model and query are the base clone's.
\<close>

theorem clone_propagates:
  "u_local_field_names (clone dj self setup_arg kwargs) = u_local_field_names self
   \<and> u_field_translator (clone dj self setup_arg kwargs) = u_field_translator self
   \<and> u_language_code (clone dj self setup_arg kwargs) = u_language_code self
   \<and> u_real_manager (clone dj self setup_arg kwargs) = u_real_manager self
   \<and> model (clone dj self setup_arg kwargs) = model (QuerySet_clone dj self setup_arg kwargs)
   \<and> query (clone dj self setup_arg kwargs) = query (QuerySet_clone dj self setup_arg kwargs)
   \<and> (\<forall>r st. u_field_translator self = Some r \<longrightarrow>
          field_translator (clone dj self setup_arg kwargs, st) =
            Inr (r, (clone dj self setup_arg kwargs, st)))"
  by (simp add: field_translator_def)

theorem clone_propagates_witness:
  "u_local_field_names (clone example_django example_scoped False []) = None
   \<and> u_field_translator (clone example_django example_scoped False []) = Some 0
   \<and> u_language_code (clone example_django example_scoped False []) = StrV ''de''
   \<and> u_real_manager (clone example_django example_scoped False []) =
        Some \<lparr>manager_model = example_shared\<rparr>
   \<and> field_translator (clone example_django example_scoped False [], example_scoped_store) =
        Inr (0, (clone example_django example_scoped False [], example_scoped_store))"
proof -
  have t: "u_field_translator example_scoped = Some 0"
    by (simp add: example_scoped_def)
  from clone_propagates[of example_django example_scoped False "[]"] t
  show ?thesis
    by (simp add: example_scoped_def example_queryset_def TranslationMixin_init_def)
qed

text \<open>
  C9. Iterating the queryset yields one combined instance per row that the base class's
  iteration yields, as many as there are rows and in the same order: the instance at
  each position is \<open>combine\<close> of the row at that position.
\<close>

theorem iter_combines_each_row:
  "length (iter dj combine self) = length (QuerySet_iter dj self)
   \<and> (\<forall>i < length (QuerySet_iter dj self).
         iter dj combine self ! i = combine (QuerySet_iter dj self ! i))"
  by (simp add: iter_def)

theorem iter_combines_each_row_witness:
  "length (QuerySet_iter example_django example_queryset) = 2
   \<and> length (iter example_django combine_spec example_queryset) = 2
   \<and> iter example_django combine_spec example_queryset ! 0 =
        [(''title'', StrV ''first''), (''subtitle'', StrV ''one''),
         (''language_code'', StrV ''en'')]
   \<and> iter example_django combine_spec example_queryset ! 1 =
        [(''title'', StrV ''first''), (''subtitle'', StrV ''eins''),
         (''language_code'', StrV ''de'')]"
proof -
  have r: "QuerySet_iter example_django example_queryset = example_rows"
    by (simp add: example_django_def example_queryset_def TranslationMixin_init_def)
  have n: "length (QuerySet_iter example_django example_queryset) = 2"
    by (simp add: r example_rows_def)
  from iter_combines_each_row[of example_django combine_spec example_queryset] n
  have "length (iter example_django combine_spec example_queryset) = 2"
    and "iter example_django combine_spec example_queryset ! 0 =
           combine_spec (QuerySet_iter example_django example_queryset ! 0)"
    and "iter example_django combine_spec example_queryset ! 1 =
           combine_spec (QuerySet_iter example_django example_queryset ! 1)"
    by simp_all
  then show ?thesis
    using n by (simp add: r example_rows_def combine_spec_def)
qed

text \<open>
  C10 (as stated, refuted). The claim says that indexing returns the raw translation row
  and never applies \<open>combine\<close>. \<open>__getitem__\<close> hands the call to the base class, and
  on a queryset that has not been evaluated the base class lists a clone of the queryset,
  limited to the position asked for, through the overriding \<open>__iter__\<close>: indexing the
  example queryset at 0 returns the combined instance of the first row.
\<close>

theorem getitem_unevaluated_counterexample:
  "getitem example_django combine_spec example_queryset 0 =
     Inr (CombinedInstance [(''title'', StrV ''first''), (''subtitle'', StrV ''one''),
                            (''language_code'', StrV ''en'')])"
  by (simp add: getitem_def QuerySet_getitem_def iter_def clone_def Let_def example_django_def
        example_queryset_def TranslationMixin_init_def example_rows_def combine_spec_def)

text \<open>
  C10 (amended). Indexing at a negative position fails the base class's assertion. On a
  queryset whose result cache is empty, indexing at \<open>k\<close> returns \<open>combine\<close> of the first row
  that the base iteration yields for the clone limited to the positions \<open>k\<close> to \<open>k + 1\<close>,
  a combined instance, and raises \<open>IndexError\<close> when there is no such row. Only on a
  queryset whose result cache is filled does it return the raw row held at \<open>k\<close> in the
  cache, with \<open>combine\<close> not applied, or \<open>IndexError\<close> past the end of the cache.
\<close>

theorem getitem_combines_unless_cached:
  "(k < 0 \<longrightarrow> getitem dj combine self k = Inl AssertionError)
   \<and> (0 \<le> k \<and> u_result_cache self = None \<longrightarrow>
        getitem dj combine self k =
          (case QuerySet_iter dj
                  ((clone dj self False [])
                     \<lparr>query := Query_set_limits dj (query (clone dj self False []))
                                 (nat k) (nat k + 1)\<rparr>) of
             [] \<Rightarrow> Inl IndexError
           | r # rs \<Rightarrow> Inr (CombinedInstance (combine r))))
   \<and> (\<forall>cache. 0 \<le> k \<and> u_result_cache self = Some cache \<longrightarrow>
        getitem dj combine self k =
          (if nat k < length cache then Inr (RawRow (cache ! nat k)) else Inl IndexError))"
  by (simp add: getitem_def QuerySet_getitem_def iter_def Let_def split: list.splits)

theorem getitem_combines_unless_cached_witness:
  "getitem example_django combine_spec example_queryset (- 1) = Inl AssertionError
   \<and> getitem example_django combine_spec example_queryset 1 =
       Inr (CombinedInstance [(''title'', StrV ''first''), (''subtitle'', StrV ''eins''),
                              (''language_code'', StrV ''de'')])
   \<and> getitem example_django combine_spec example_queryset 2 = Inl IndexError
   \<and> getitem example_django combine_spec example_evaluated 1 =
       Inr (RawRow (Row 2 [(''subtitle'', StrV ''eins''), (''language_code'', StrV ''de''),
                           (''master'', InstV (Row 1 [(''title'', StrV ''first'')]))]))
   \<and> getitem example_django combine_spec example_evaluated 2 = Inl IndexError"
proof -
  have n: "u_result_cache example_queryset = None"
    by (simp add: example_queryset_def TranslationMixin_init_def)
  have c: "u_result_cache example_evaluated = Some example_rows"
    by (simp add: example_evaluated_def)
  have l1: "QuerySet_iter example_django
              ((clone example_django example_queryset False [])
                 \<lparr>query := Query_set_limits example_django
                             (query (clone example_django example_queryset False []))
                             (nat 1) (nat 1 + 1)\<rparr>) = [example_rows ! 1]"
    by (simp add: clone_def Let_def example_django_def example_queryset_def
          TranslationMixin_init_def example_rows_def)
  have l2: "QuerySet_iter example_django
              ((clone example_django example_queryset False [])
                 \<lparr>query := Query_set_limits example_django
                             (query (clone example_django example_queryset False []))
                             (nat 2) (nat 2 + 1)\<rparr>) = []"
    by (simp add: clone_def Let_def example_django_def example_queryset_def
          TranslationMixin_init_def example_rows_def)
  have a: "getitem example_django combine_spec example_queryset (- 1) = Inl AssertionError"
    using getitem_combines_unless_cached[of "- 1" example_django combine_spec example_queryset]
    by simp
  have b: "getitem example_django combine_spec example_queryset 1 =
       Inr (CombinedInstance (combine_spec (example_rows ! 1)))"
    using getitem_combines_unless_cached[of 1 example_django combine_spec example_queryset] n l1
    by simp
  have d: "getitem example_django combine_spec example_queryset 2 = Inl IndexError"
    using getitem_combines_unless_cached[of 2 example_django combine_spec example_queryset] n l2
    by simp
  have e: "getitem example_django combine_spec example_evaluated 1 =
       Inr (RawRow (example_rows ! 1))"
    using getitem_combines_unless_cached[of 1 example_django combine_spec example_evaluated] c
    by (simp add: example_rows_def)
  have f: "getitem example_django combine_spec example_evaluated 2 = Inl IndexError"
    using getitem_combines_unless_cached[of 2 example_django combine_spec example_evaluated] c
    by (simp add: example_rows_def)
  from a b d e f show ?thesis
    by (simp add: example_rows_def combine_spec_def)
qed

section \<open>Properties of create\<close>

lemma shared_local_field_names_stable:
  "shared_local_field_names self = Inr (names, self1) \<Longrightarrow>
   shared_local_field_names self1 = Inr (names, self1)"
  by (auto simp: shared_local_field_names_def split: option.splits sum.splits)

lemma shared_local_field_names_frame:
  "shared_local_field_names self = Inr (names, self1) \<Longrightarrow>
   u_language_code self1 = u_language_code self \<and> u_real_manager self1 = u_real_manager self
   \<and> u_field_translator self1 = u_field_translator self \<and> model self1 = model self
   \<and> query self1 = query self"
  by (auto simp: shared_local_field_names_def split: option.splits sum.splits)

lemma update_fresh_append:
  "k \<notin> fst ` set al \<Longrightarrow> AList.update k v al = al @ [(k, v)]"
  by (induction al) auto

lemma map_of_append_fresh:
  "k \<notin> fst ` set xs \<Longrightarrow> map_of (xs @ ys) k = map_of ys k"
  by (induction xs) auto

lemma delete_append: "AList.delete k (xs @ ys) = AList.delete k xs @ AList.delete k ys"
  by (simp add: AList.delete_eq)

lemma split_kwargs_stable:
  assumes "shared_local_field_names self1 = Inr (names, self1)"
  shows "distinct (map fst (pre @ rest)) \<Longrightarrow>
    split_kwargs (map fst rest) (shared_part names pre @ rest) (translated_part names pre) self1 =
      Inr ((shared_part names (pre @ rest), translated_part names (pre @ rest)), self1)"
proof (induction rest arbitrary: pre)
  case Nil
  then show ?case by simp
next
  case (Cons kv rest)
  obtain k v where kv: "kv = (k, v)" by (cases kv)
  have d: "distinct (map fst ((pre @ [(k, v)]) @ rest))"
    using Cons.prems kv by simp
  have k_pre: "k \<notin> fst ` set pre" and k_rest: "k \<notin> fst ` set rest"
    using Cons.prems kv by auto
  have k_sp: "k \<notin> fst ` set (shared_part names pre)" and k_tp: "k \<notin> fst ` set (translated_part names pre)"
    using k_pre by (auto simp: shared_part_def translated_part_def)
  show ?case
  proof (cases "k \<in> set names")
    case True
    have "shared_part names (pre @ [(k, v)]) = shared_part names pre @ [(k, v)]"
      using True by (simp add: shared_part_def)
    moreover have "translated_part names (pre @ [(k, v)]) = translated_part names pre"
      using True by (simp add: translated_part_def)
    ultimately show ?thesis
      using Cons.IH[OF d] True assms kv by simp
  next
    case False
    have look: "map_of (shared_part names pre @ (k, v) # rest) k = Some v"
      using map_of_append_fresh[OF k_sp, of "(k, v) # rest"] by simp
    have del: "AList.delete k (shared_part names pre @ (k, v) # rest) = shared_part names pre @ rest"
      using k_sp k_rest by (simp add: delete_append)
    have upd: "AList.update k v (translated_part names pre) = translated_part names pre @ [(k, v)]"
      using k_tp by (simp add: update_fresh_append)
    have "shared_part names (pre @ [(k, v)]) = shared_part names pre"
      using False by (simp add: shared_part_def)
    moreover have "translated_part names (pre @ [(k, v)]) = translated_part names pre @ [(k, v)]"
      using False by (simp add: translated_part_def)
    ultimately show ?thesis
      using Cons.IH[OF d] False assms kv look del upd by simp
  qed
qed

lemma split_kwargs_result:
  assumes "distinct (map fst kwargs)" and "shared_local_field_names self = Inr (names, self1)"
  shows "split_kwargs (map fst kwargs) kwargs [] self =
     Inr ((shared_part names kwargs, translated_part names kwargs),
          (if kwargs = [] then self else self1))"
proof (cases kwargs)
  case Nil
  then show ?thesis by (simp add: shared_part_def translated_part_def)
next
  case (Cons kv rest)
  have st: "shared_local_field_names self1 = Inr (names, self1)"
    using assms(2) by (rule shared_local_field_names_stable)
  have "split_kwargs (map fst kwargs) kwargs [] self = split_kwargs (map fst kwargs) kwargs [] self1"
    using Cons assms(2) st by (cases kv) simp
  also have "\<dots> = Inr ((shared_part names kwargs, translated_part names kwargs), self1)"
    using split_kwargs_stable[OF st, of "[]" kwargs] assms(1)
    by (simp add: shared_part_def translated_part_def)
  finally show ?thesis using Cons by simp
qed

lemma enforce_language_frame:
  "shared_local_field_names self = Inr (names, self1) \<Longrightarrow>
   enforce_language dj (if b then self else self1) tk = enforce_language dj self tk"
  by (auto simp: enforce_language_def dest: shared_local_field_names_frame)

lemma enforce_language_frame1:
  "shared_local_field_names self = Inr (names, self1) \<Longrightarrow>
   enforce_language dj self1 tk = enforce_language dj self tk"
  by (auto simp: enforce_language_def dest: shared_local_field_names_frame)

lemma enforce_language_code:
  "map_of (enforce_language dj self tk) ''language_code'' =
     Some (case map_of tk ''language_code'' of
             Some v \<Rightarrow> v
           | None \<Rightarrow> if truthy (u_language_code self) then u_language_code self
                     else StrV (get_language dj))"
  by (auto simp: enforce_language_def update_conv')

lemma enforce_language_other:
  "k \<noteq> ''language_code'' \<Longrightarrow> map_of (enforce_language dj self tk) k = map_of tk k"
  by (auto simp: enforce_language_def update_conv')

lemma enforce_language_keeps:
  "map_of tk k = Some v \<Longrightarrow> map_of (enforce_language dj self tk) k = Some v"
  by (auto simp: enforce_language_def update_conv')

lemma translated_part_all:
  "shared_part names kwargs = [] \<Longrightarrow> translated_part names kwargs = kwargs"
  by (induction kwargs) (auto simp: shared_part_def translated_part_def split: if_splits)

lemma map_of_translated_part:
  "map_of (translated_part names kwargs) k = (if k \<in> set names then None else map_of kwargs k)"
  by (induction kwargs) (auto simp: translated_part_def)

lemma create_usage_error:
  assumes "distinct (map fst kwargs)" and "shared_local_field_names self = Inr (names, self1)"
    and "map_of (translated_part names kwargs) ''master'' = Some m"
    and "shared_part names kwargs \<noteq> []"
  shows "create dj combine kwargs self d = (Inl RuntimeError, d)"
proof -
  have "map_of (enforce_language dj self (translated_part names kwargs)) ''master'' = Some m"
    using assms(3) by (rule enforce_language_keeps)
  then show ?thesis
    using assms(4)
    by (simp add: create_def split_kwargs_result[OF assms(1,2)]
          enforce_language_frame[OF assms(2)] enforce_language_frame1[OF assms(2)] Let_def)
qed

lemma create_with_master_only:
  assumes "distinct (map fst kwargs)" and "shared_local_field_names self = Inr (names, self1)"
    and "map_of (translated_part names kwargs) ''master'' = Some m"
    and "shared_part names kwargs = []"
  shows "create dj combine kwargs self d =
     (case Manager_create_error dj (model self) (translations_table d)
             (enforce_language dj self kwargs) of
        Some e \<Rightarrow> (Inl e, d)
      | None \<Rightarrow>
          (Inr (combine (Row (Suc (length (translations_table d)))
                           (enforce_language dj self kwargs)), self1),
           d\<lparr>translations_table := translations_table d @
                [Row (Suc (length (translations_table d))) (enforce_language dj self kwargs)]\<rparr>))"
proof -
  have tk: "translated_part names kwargs = kwargs"
    using assms(4) by (rule translated_part_all)
  have ne: "kwargs \<noteq> []"
    using assms(3) tk by auto
  have md: "model self1 = model self"
    using shared_local_field_names_frame[OF assms(2)] by simp
  have "map_of (enforce_language dj self kwargs) ''master'' = Some m"
    using assms(3) tk enforce_language_keeps by metis
  then show ?thesis
    using assms(4) tk ne md
    by (simp add: create_def split_kwargs_result[OF assms(1,2)]
          enforce_language_frame[OF assms(2)] enforce_language_frame1[OF assms(2)]
          Let_def Manager_create_def split: option.splits)
qed

lemma create_without_master:
  assumes "distinct (map fst kwargs)" and "shared_local_field_names self = Inr (names, self1)"
    and "map_of (translated_part names kwargs) ''master'' = None"
    and "u_real_manager self = Some real"
  shows "create dj combine kwargs self d =
     (case Manager_create_error dj (manager_model real) (shared_table d)
             (shared_part names kwargs) of
        Some e \<Rightarrow> (Inl e, d)
      | None \<Rightarrow>
          (case Manager_create_error dj (model self)  (translations_table d)
                  (translation_kwargs dj self d names kwargs) of
             Some e \<Rightarrow>
               (Inl e, d\<lparr>shared_table := shared_table d @ [shared_row d names kwargs]\<rparr>)
           | None \<Rightarrow>
               (Inr (combine (Row (Suc (length (translations_table d)))
                                (translation_kwargs dj self d names kwargs)),
                     if kwargs = [] then self else self1),
                d\<lparr>shared_table := shared_table d @ [shared_row d names kwargs],
                  translations_table := translations_table d @
                    [Row (Suc (length (translations_table d)))
                       (translation_kwargs dj self d names kwargs)]\<rparr>)))"
proof -
  define self' where "self' = (if kwargs = [] then self else self1)"
  have sp: "split_kwargs (map fst kwargs) kwargs [] self =
      Inr ((shared_part names kwargs, translated_part names kwargs), self')"
    unfolding self'_def by (rule split_kwargs_result[OF assms(1,2)])
  have el: "enforce_language dj self' (translated_part names kwargs) =
      enforce_language dj self (translated_part names kwargs)"
    unfolding self'_def by (rule enforce_language_frame[OF assms(2)])
  have nm: "map_of (enforce_language dj self (translated_part names kwargs)) ''master'' = None"
    using assms(3) by (simp add: enforce_language_other)
  have rm: "u_real_manager self' = Some real"
    using assms(4) shared_local_field_names_frame[OF assms(2)] by (simp add: self'_def)
  have md: "model self' = model self"
    using shared_local_field_names_frame[OF assms(2)] by (simp add: self'_def)
  have "create dj combine kwargs self d =
     (case Manager_create_error dj (manager_model real) (shared_table d)
             (shared_part names kwargs) of
        Some e \<Rightarrow> (Inl e, d)
      | None \<Rightarrow>
          (case Manager_create_error dj (model self)  (translations_table d)
                  (translation_kwargs dj self d names kwargs) of
             Some e \<Rightarrow>
               (Inl e, d\<lparr>shared_table := shared_table d @ [shared_row d names kwargs]\<rparr>)
           | None \<Rightarrow>
               (Inr (combine (Row (Suc (length (translations_table d)))
                                (translation_kwargs dj self d names kwargs)),
                     self'),
                d\<lparr>shared_table := shared_table d @ [shared_row d names kwargs],
                  translations_table := translations_table d @
                    [Row (Suc (length (translations_table d)))
                       (translation_kwargs dj self d names kwargs)]\<rparr>)))"
    unfolding create_def sp
    by (simp add: el nm rm md Let_def Manager_create_def shared_row_def translation_kwargs_def
          split: option.splits)
  then show ?thesis
    unfolding self'_def .
qed

text \<open>
  C3. When \<open>create\<close> is given a \<open>master\<close> (a keyword that is not a shared field name, so
  that it lands in \<open>tkwargs\<close>) together with at least one shared-owned keyword, it raises
  \<open>RuntimeError\<close> and leaves both tables as they were. When it is given a \<open>master\<close> and
  translation-owned keywords only, it leaves the shared table unchanged whatever the
  translation insert does: if that insert goes through, one translation row is added
  whose \<open>master\<close> is the given instance; if it raises, the exception propagates and
  nothing is written.
\<close>

theorem create_with_explicit_master:
  assumes "distinct (map fst kwargs)"
    and "shared_local_field_names self = Inr (names, self1)"
    and "map_of (translated_part names kwargs) ''master'' = Some m"
  shows "(shared_part names kwargs \<noteq> [] \<longrightarrow>
            create dj combine kwargs self d = (Inl RuntimeError, d))
       \<and> (shared_part names kwargs = [] \<longrightarrow>
            shared_table (snd (create dj combine kwargs self d)) = shared_table d
            \<and> (Manager_create_error dj (model self) (translations_table d)
                  (enforce_language dj self kwargs) = None \<longrightarrow>
                (\<exists>t. create dj combine kwargs self d =
                       (Inr (combine t, self1),
                        d\<lparr>translations_table := translations_table d @ [t]\<rparr>)
                     \<and> map_of (row_fields t) ''master'' = Some m))
            \<and> (\<forall>e. Manager_create_error dj (model self) (translations_table d)
                      (enforce_language dj self kwargs) = Some e \<longrightarrow>
                    create dj combine kwargs self d = (Inl e, d)))"
proof (intro conjI impI allI)
  assume "shared_part names kwargs \<noteq> []"
  then show "create dj combine kwargs self d = (Inl RuntimeError, d)"
    using assms by (rule create_usage_error[rotated 3])
next
  assume e: "shared_part names kwargs = []"
  note c = create_with_master_only[OF assms e, of dj combine d]
  show "shared_table (snd (create dj combine kwargs self d)) = shared_table d"
    unfolding c by (simp split: option.splits)
next
  assume e: "shared_part names kwargs = []"
    and ok: "Manager_create_error dj (model self) (translations_table d)
                  (enforce_language dj self kwargs) = None"
  let ?t = "Row (Suc (length (translations_table d))) (enforce_language dj self kwargs)"
  have c: "create dj combine kwargs self d =
      (Inr (combine ?t, self1), d\<lparr>translations_table := translations_table d @ [?t]\<rparr>)"
    unfolding create_with_master_only[OF assms e, of dj combine d] using ok by simp
  have "map_of kwargs ''master'' = Some m"
    using assms(3) translated_part_all[OF e] by simp
  then have "map_of (row_fields ?t) ''master'' = Some m"
    by (simp add: enforce_language_keeps)
  with c show "\<exists>t. create dj combine kwargs self d =
                   (Inr (combine t, self1),
                    d\<lparr>translations_table := translations_table d @ [t]\<rparr>)
                 \<and> map_of (row_fields t) ''master'' = Some m"
    by (intro exI[of _ ?t]) simp
next
  fix e
  assume "shared_part names kwargs = []"
    and "Manager_create_error dj (model self) (translations_table d)
                  (enforce_language dj self kwargs) = Some e"
  then show "create dj combine kwargs self d = (Inl e, d)"
    using create_with_master_only[OF assms, of dj combine d] by simp
qed

lemma example_names:
  "shared_local_field_names example_queryset =
     Inr ([''id'', ''title'', ''translations''],
          example_queryset\<lparr>u_local_field_names := Some [''id'', ''title'', ''translations'']\<rparr>)"
  by (simp add: shared_local_field_names_def shared_model_def example_queryset_def
        TranslationMixin_init_def example_shared_def)

lemma example_real:
  "u_real_manager example_queryset = Some \<lparr>manager_model = example_shared\<rparr>"
  by (simp add: example_queryset_def TranslationMixin_init_def)

lemma example_model: "model example_queryset = example_translations"
  by (simp add: example_queryset_def TranslationMixin_init_def)

theorem create_with_explicit_master_witness:
  "create example_django combine_spec
      [(''master'', InstV (Row 1 [(''title'', StrV ''first'')])), (''title'', StrV ''x'')]
      example_queryset example_db = (Inl RuntimeError, example_db)
   \<and> snd (create example_django combine_spec
        [(''master'', InstV (Row 1 [(''title'', StrV ''first'')])), (''subtitle'', StrV ''zwei'')]
        example_queryset example_db) =
       \<lparr>shared_table = [],
        translations_table =
          [Row 1 [(''master'', InstV (Row 1 [(''title'', StrV ''first'')])),
                  (''subtitle'', StrV ''zwei''), (''language_code'', StrV ''en'')]]\<rparr>"
proof -
  let ?m = "InstV (Row 1 [(''title'', StrV ''first'')])"
  let ?names = "[''id'', ''title'', ''translations'']"
  let ?kw1 = "[(''master'', ?m), (''title'', StrV ''x'')]"
  let ?kw2 = "[(''master'', ?m), (''subtitle'', StrV ''zwei'')]"
  have d1: "distinct (map fst ?kw1)" and d2: "distinct (map fst ?kw2)"
    by simp_all
  have m1: "map_of (translated_part ?names ?kw1) ''master'' = Some ?m"
    and m2: "map_of (translated_part ?names ?kw2) ''master'' = Some ?m"
    by (simp_all add: translated_part_def)
  have s1: "shared_part ?names ?kw1 \<noteq> []" and s2: "shared_part ?names ?kw2 = []"
    by (simp_all add: shared_part_def)
  have el: "enforce_language example_django example_queryset ?kw2 =
      [(''master'', ?m), (''subtitle'', StrV ''zwei''), (''language_code'', StrV ''en'')]"
    by (simp add: enforce_language_def example_queryset_def TranslationMixin_init_def
          example_django_def)
  have ok: "Manager_create_error example_django (model example_queryset)
      (translations_table example_db) (enforce_language example_django example_queryset ?kw2) = None"
    unfolding el by (simp add: example_django_def example_model example_translations_def)
  have "create example_django combine_spec ?kw1 example_queryset example_db =
      (Inl RuntimeError, example_db)"
    using create_with_explicit_master[OF d1 example_names m1, of example_django combine_spec example_db] s1
    by simp
  moreover have "\<exists>t. create example_django combine_spec ?kw2 example_queryset example_db =
      (Inr (combine_spec t,
            example_queryset\<lparr>u_local_field_names := Some [''id'', ''title'', ''translations'']\<rparr>),
       example_db\<lparr>translations_table := translations_table example_db @ [t]\<rparr>)
      \<and> map_of (row_fields t) ''master'' = Some ?m"
    using create_with_explicit_master[OF d2 example_names m2, of example_django combine_spec example_db] s2 ok
    by simp
  moreover have "snd (create example_django combine_spec ?kw2 example_queryset example_db) =
       \<lparr>shared_table = [],
        translations_table =
          [Row 1 [(''master'', ?m), (''subtitle'', StrV ''zwei''), (''language_code'', StrV ''en'')]]\<rparr>"
    unfolding create_with_master_only[OF d2 example_names m2 s2, of example_django combine_spec example_db]
    using ok el by (simp add: example_db_def)
  ultimately show ?thesis by simp
qed

lemma dom_enforce_language:
  "fst ` set (enforce_language dj self tk) = fst ` set tk \<union> {''language_code''}"
proof -
  have "map_of tk ''language_code'' \<noteq> None \<Longrightarrow> ''language_code'' \<in> fst ` set tk"
    by (simp add: map_of_eq_None_iff)
  then show ?thesis
    unfolding enforce_language_def by (auto simp add: dom_update)
qed

text \<open>
  C4 (as stated, refuted). \<open>create(bogus=1)\<close> gives no \<open>master\<close>, and \<open>bogus\<close> is not a
  shared field name, so it is a translation-owned keyword. In the example setting the
  shared insert goes through and the translation insert raises \<open>TypeError\<close>: the call
  returns nothing, one shared row has been written and no translation row.
\<close>

theorem create_orphan_counterexample:
  "map_of [(''bogus'', IntV 1)] ''master'' = None
   \<and> create example_django combine_spec [(''bogus'', IntV 1)] example_queryset example_db =
       (Inl TypeError, \<lparr>shared_table = [Row 1 []], translations_table = []\<rparr>)"
proof -
  let ?names = "[''id'', ''title'', ''translations'']"
  let ?kw = "[(''bogus'', IntV 1)]"
  have d: "distinct (map fst ?kw)" by simp
  have m: "map_of (translated_part ?names ?kw) ''master'' = None"
    by (simp add: translated_part_def)
  have tk: "translation_kwargs example_django example_queryset example_db ?names ?kw =
      [(''bogus'', IntV 1), (''language_code'', StrV ''en''), (''master'', InstV (Row 1 []))]"
    by (simp add: translation_kwargs_def shared_row_def shared_part_def translated_part_def
          enforce_language_def example_queryset_def TranslationMixin_init_def
          example_django_def example_db_def)
  have s: "Manager_create_error example_django (manager_model \<lparr>manager_model = example_shared\<rparr>)
      (shared_table example_db) (shared_part ?names ?kw) = None"
    by (simp add: example_django_def shared_part_def)
  have t: "Manager_create_error example_django (model example_queryset)
      (translations_table example_db)
      (translation_kwargs example_django example_queryset example_db ?names ?kw) = Some TypeError"
    using tk by (simp add: example_django_def example_model example_translations_def)
  have "create example_django combine_spec ?kw example_queryset example_db =
       (Inl TypeError, \<lparr>shared_table = [Row 1 []], translations_table = []\<rparr>)"
    unfolding create_without_master[OF d example_names m example_real, of example_django combine_spec example_db]
    using s t by (simp add: shared_row_def shared_part_def example_db_def)
  then show ?thesis by simp
qed

text \<open>
  C4 (amended). \<open>create\<close> without a \<open>master\<close> (no such keyword in \<open>tkwargs\<close>), on a
  queryset wired to its real manager. If the shared insert raises, the exception
  propagates and nothing is written. If it goes through, exactly one shared row is
  written, holding the shared-owned keywords; then, if the translation insert goes
  through as well, exactly one translation row is written, holding every
  translation-owned keyword, a \<open>language_code\<close> and \<open>master\<close> set to the new shared
  instance, and \<open>combine\<close> of that row is returned; if the translation insert raises,
  the exception propagates and the new shared row stays, without a translation row.
\<close>

theorem create_makes_both_rows:
  assumes "distinct (map fst kwargs)"
    and "shared_local_field_names self = Inr (names, self1)"
    and "u_real_manager self = Some real"
    and "map_of (translated_part names kwargs) ''master'' = None"
  shows "row_fields (shared_row d names kwargs) = shared_part names kwargs
    \<and> (\<forall>e. Manager_create_error dj (manager_model real) (shared_table d)
              (shared_part names kwargs) = Some e \<longrightarrow>
            create dj combine kwargs self d = (Inl e, d))
    \<and> (Manager_create_error dj (manager_model real) (shared_table d)
          (shared_part names kwargs) = None \<longrightarrow>
         (\<forall>e. Manager_create_error dj (model self) (translations_table d)
                 (translation_kwargs dj self d names kwargs) = Some e \<longrightarrow>
               create dj combine kwargs self d =
                 (Inl e, d\<lparr>shared_table := shared_table d @ [shared_row d names kwargs]\<rparr>))
         \<and> (Manager_create_error dj (model self) (translations_table d)
                 (translation_kwargs dj self d names kwargs) = None \<longrightarrow>
              (\<exists>t self'.
                 create dj combine kwargs self d =
                   (Inr (combine t, self'),
                    d\<lparr>shared_table := shared_table d @ [shared_row d names kwargs],
                      translations_table := translations_table d @ [t]\<rparr>)
                 \<and> map_of (row_fields t) ''master'' = Some (InstV (shared_row d names kwargs))
                 \<and> (\<forall>k v. map_of (translated_part names kwargs) k = Some v \<longrightarrow>
                            map_of (row_fields t) k = Some v)
                 \<and> fst ` set (row_fields t) =
                     fst ` set (translated_part names kwargs) \<union> {''language_code'', ''master''})))"
proof (intro conjI impI allI)
  show "row_fields (shared_row d names kwargs) = shared_part names kwargs"
    by (simp add: shared_row_def)
next
  fix e
  assume "Manager_create_error dj (manager_model real) (shared_table d)
              (shared_part names kwargs) = Some e"
  then show "create dj combine kwargs self d = (Inl e, d)"
    using create_without_master[OF assms(1,2,4,3), of dj combine d] by simp
next
  fix e
  assume "Manager_create_error dj (manager_model real) (shared_table d)
              (shared_part names kwargs) = None"
    and "Manager_create_error dj (model self) (translations_table d)
                 (translation_kwargs dj self d names kwargs) = Some e"
  then show "create dj combine kwargs self d =
                 (Inl e, d\<lparr>shared_table := shared_table d @ [shared_row d names kwargs]\<rparr>)"
    using create_without_master[OF assms(1,2,4,3), of dj combine d] by simp
next
  assume s: "Manager_create_error dj (manager_model real) (shared_table d)
              (shared_part names kwargs) = None"
    and t: "Manager_create_error dj (model self) (translations_table d)
                 (translation_kwargs dj self d names kwargs) = None"
  let ?tk = "enforce_language dj self (translated_part names kwargs)"
  let ?t = "Row (Suc (length (translations_table d))) (translation_kwargs dj self d names kwargs)"
  have c: "create dj combine kwargs self d =
      (Inr (combine ?t, if kwargs = [] then self else self1),
       d\<lparr>shared_table := shared_table d @ [shared_row d names kwargs],
         translations_table := translations_table d @ [?t]\<rparr>)"
    using create_without_master[OF assms(1,2,4,3), of dj combine d] s t by simp
  have m: "map_of (row_fields ?t) ''master'' = Some (InstV (shared_row d names kwargs))"
    by (simp add: update_conv' translation_kwargs_def)
  have k: "map_of (row_fields ?t) k = Some v"
    if "map_of (translated_part names kwargs) k = Some v" for k v
  proof -
    have "k \<noteq> ''master''" using that assms(4) by auto
    moreover have "map_of ?tk k = Some v" using that by (rule enforce_language_keeps)
    ultimately show ?thesis by (simp add: update_conv' translation_kwargs_def)
  qed
  have dm: "fst ` set (row_fields ?t) =
      fst ` set (translated_part names kwargs) \<union> {''language_code'', ''master''}"
    unfolding row.sel translation_kwargs_def dom_update dom_enforce_language by blast
  from c m k dm show "\<exists>t self'.
                 create dj combine kwargs self d =
                   (Inr (combine t, self'),
                    d\<lparr>shared_table := shared_table d @ [shared_row d names kwargs],
                      translations_table := translations_table d @ [t]\<rparr>)
                 \<and> map_of (row_fields t) ''master'' = Some (InstV (shared_row d names kwargs))
                 \<and> (\<forall>k v. map_of (translated_part names kwargs) k = Some v \<longrightarrow>
                            map_of (row_fields t) k = Some v)
                 \<and> fst ` set (row_fields t) =
                     fst ` set (translated_part names kwargs) \<union> {''language_code'', ''master''}"
    by blast
qed



theorem create_makes_both_rows_witness:
  "snd (create example_django combine_spec
          [(''title'', StrV ''Hello''), (''subtitle'', StrV ''World'')]
          example_queryset example_db) =
     \<lparr>shared_table = [Row 1 [(''title'', StrV ''Hello'')]],
      translations_table =
        [Row 1 [(''subtitle'', StrV ''World''), (''language_code'', StrV ''en''),
                (''master'', InstV (Row 1 [(''title'', StrV ''Hello'')]))]]\<rparr>
   \<and> map_sum id fst (fst (create example_django combine_spec
          [(''title'', StrV ''Hello''), (''subtitle'', StrV ''World'')]
          example_queryset example_db)) =
     Inr [(''title'', StrV ''Hello''), (''subtitle'', StrV ''World''),
          (''language_code'', StrV ''en'')]
   \<and> create example_django combine_spec
          [(''title'', StrV ''Hello''), (''bogus'', IntV 2)]
          example_queryset example_db =
     (Inl TypeError,
      \<lparr>shared_table = [Row 1 [(''title'', StrV ''Hello'')]], translations_table = []\<rparr>)
   \<and> create (example_django\<lparr>Manager_create_error := (\<lambda>m table kw. Some IntegrityError)\<rparr>)
          combine_spec [(''title'', StrV ''Hello''), (''subtitle'', StrV ''World'')]
          example_queryset example_db =
     (Inl IntegrityError, example_db)"
proof -
  let ?names = "[''id'', ''title'', ''translations'']"
  let ?kw = "[(''title'', StrV ''Hello''), (''subtitle'', StrV ''World'')]"
  let ?kwb = "[(''title'', StrV ''Hello''), (''bogus'', IntV 2)]"
  let ?dj2 = "example_django\<lparr>Manager_create_error := (\<lambda>m table kw. Some IntegrityError)\<rparr>"
  have d: "distinct (map fst ?kw)" and db: "distinct (map fst ?kwb)" by simp_all
  have m: "map_of (translated_part ?names ?kw) ''master'' = None"
    and mb: "map_of (translated_part ?names ?kwb) ''master'' = None"
    by (simp_all add: translated_part_def)
  have sr: "shared_row example_db ?names ?kw = Row 1 [(''title'', StrV ''Hello'')]"
    and srb: "shared_row example_db ?names ?kwb = Row 1 [(''title'', StrV ''Hello'')]"
    by (simp_all add: shared_row_def shared_part_def example_db_def)
  have tk: "translation_kwargs example_django example_queryset example_db ?names ?kw =
      [(''subtitle'', StrV ''World''), (''language_code'', StrV ''en''),
       (''master'', InstV (Row 1 [(''title'', StrV ''Hello'')]))]"
    and tkb: "translation_kwargs example_django example_queryset example_db ?names ?kwb =
      [(''bogus'', IntV 2), (''language_code'', StrV ''en''),
       (''master'', InstV (Row 1 [(''title'', StrV ''Hello'')]))]"
    by (simp_all add: translation_kwargs_def shared_row_def shared_part_def translated_part_def
          enforce_language_def example_queryset_def TranslationMixin_init_def
          example_django_def example_db_def)
  have s: "Manager_create_error example_django (manager_model \<lparr>manager_model = example_shared\<rparr>)
      (shared_table example_db) (shared_part ?names ?kw) = None"
    and sb: "Manager_create_error example_django (manager_model \<lparr>manager_model = example_shared\<rparr>)
      (shared_table example_db) (shared_part ?names ?kwb) = None"
    by (simp_all add: example_django_def shared_part_def example_shared_def)
  have t: "Manager_create_error example_django (model example_queryset)
      (translations_table example_db)
      (translation_kwargs example_django example_queryset example_db ?names ?kw) = None"
    using tk by (simp add: example_django_def example_model example_translations_def)
  have tb: "Manager_create_error example_django (model example_queryset)
      (translations_table example_db)
      (translation_kwargs example_django example_queryset example_db ?names ?kwb) = Some TypeError"
    using tkb by (simp add: example_django_def example_model example_translations_def)
  have s2: "Manager_create_error ?dj2 (manager_model \<lparr>manager_model = example_shared\<rparr>)
      (shared_table example_db) (shared_part ?names ?kw) = Some IntegrityError"
    by simp
  note inst = create_makes_both_rows[OF d example_names example_real m,
      of example_db example_django combine_spec]
  from inst[THEN conjunct2, THEN conjunct2, THEN mp, OF s, THEN conjunct2, THEN mp, OF t]
  obtain t0 self0 where
    "create example_django combine_spec ?kw example_queryset example_db =
        (Inr (combine_spec t0, self0),
         example_db\<lparr>shared_table := shared_table example_db @ [shared_row example_db ?names ?kw],
           translations_table := translations_table example_db @ [t0]\<rparr>)"
    by (elim exE conjE)
  then have one: "length (shared_table (snd (create example_django combine_spec ?kw
      example_queryset example_db))) = 1"
    by (simp add: example_db_def)
  have e: "create example_django combine_spec ?kw example_queryset example_db =
     (Inr (combine_spec (Row 1 [(''subtitle'', StrV ''World''), (''language_code'', StrV ''en''),
                (''master'', InstV (Row 1 [(''title'', StrV ''Hello'')]))]),
           example_queryset\<lparr>u_local_field_names := Some ?names\<rparr>),
      \<lparr>shared_table = [Row 1 [(''title'', StrV ''Hello'')]],
       translations_table =
        [Row 1 [(''subtitle'', StrV ''World''), (''language_code'', StrV ''en''),
                (''master'', InstV (Row 1 [(''title'', StrV ''Hello'')]))]]\<rparr>)"
    unfolding create_without_master[OF d example_names m example_real,
        of example_django combine_spec example_db]
    using s t tk sr by (simp add: example_db_def)
  have b: "create example_django combine_spec ?kwb example_queryset example_db =
     (Inl TypeError,
      \<lparr>shared_table = [Row 1 [(''title'', StrV ''Hello'')]], translations_table = []\<rparr>)"
    using create_makes_both_rows[OF db example_names example_real mb,
      of example_db example_django combine_spec,
      THEN conjunct2, THEN conjunct2, THEN mp, OF sb, THEN conjunct1, THEN spec, THEN mp, OF tb]
      srb
    by (simp add: example_db_def)
  have c2: "create ?dj2 combine_spec ?kw example_queryset example_db =
     (Inl IntegrityError, example_db)"
    using create_makes_both_rows[OF d example_names example_real m,
      of example_db ?dj2 combine_spec,
      THEN conjunct2, THEN conjunct1, THEN spec, THEN mp, OF s2]
    by simp
  show ?thesis
    using one b c2 by (simp add: e combine_spec_def)
qed

text \<open>
  C5. Whenever \<open>create\<close> writes its translation row (it is not given a \<open>master\<close> together
  with shared-owned keywords, without a \<open>master\<close> the real manager is set, and the inserts
  go through), the row's \<open>language_code\<close> is the \<open>language_code\<close> keyword of \<open>tkwargs\<close>
  when there is one, else the queryset's \<open>_language_code\<close> when that is truthy, else the
  active language. The keyword of \<open>tkwargs\<close> is the caller's \<open>language_code\<close> keyword
  unless \<open>language_code\<close> is a shared field name.
\<close>

theorem create_language_code_chain:
  assumes "distinct (map fst kwargs)"
    and "shared_local_field_names self = Inr (names, self1)"
    and "map_of (translated_part names kwargs) ''master'' \<noteq> None \<longrightarrow>
           shared_part names kwargs = []
           \<and> Manager_create_error dj (model self) (translations_table d)
                (enforce_language dj self kwargs) = None"
    and "map_of (translated_part names kwargs) ''master'' = None \<longrightarrow>
           (\<exists>real. u_real_manager self = Some real
                \<and> Manager_create_error dj (manager_model real) (shared_table d)
                     (shared_part names kwargs) = None)
           \<and> Manager_create_error dj (model self) (translations_table d)
                (translation_kwargs dj self d names kwargs) = None"
  shows "\<exists>t self'.
      fst (create dj combine kwargs self d) = Inr (combine t, self')
      \<and> translations_table (snd (create dj combine kwargs self d)) =
          translations_table d @ [t]
      \<and> map_of (row_fields t) ''language_code'' =
          Some (case map_of (translated_part names kwargs) ''language_code'' of
                  Some v \<Rightarrow> v
                | None \<Rightarrow> if truthy (u_language_code self) then u_language_code self
                          else StrV (get_language dj))
      \<and> (''language_code'' \<notin> set names \<longrightarrow>
            map_of (translated_part names kwargs) ''language_code'' =
              map_of kwargs ''language_code'')"
proof (cases "map_of (translated_part names kwargs) ''master''")
  case None
  then obtain real where r: "u_real_manager self = Some real"
    and s: "Manager_create_error dj (manager_model real) (shared_table d)
                     (shared_part names kwargs) = None"
    and t: "Manager_create_error dj (model self) (translations_table d)
                (translation_kwargs dj self d names kwargs) = None"
    using assms(4) by auto
  let ?t = "Row (Suc (length (translations_table d))) (translation_kwargs dj self d names kwargs)"
  have c: "create dj combine kwargs self d =
      (Inr (combine ?t, if kwargs = [] then self else self1),
       d\<lparr>shared_table := shared_table d @ [shared_row d names kwargs],
         translations_table := translations_table d @ [?t]\<rparr>)"
    using create_without_master[OF assms(1,2) None r, of dj combine d] s t by simp
  have l: "map_of (row_fields ?t) ''language_code'' =
          Some (case map_of (translated_part names kwargs) ''language_code'' of
                  Some v \<Rightarrow> v
                | None \<Rightarrow> if truthy (u_language_code self) then u_language_code self
                          else StrV (get_language dj))"
    by (simp add: update_conv' enforce_language_code translation_kwargs_def)
  have f: "fst (create dj combine kwargs self d) = Inr (combine ?t, if kwargs = [] then self else self1)"
    and s: "translations_table (snd (create dj combine kwargs self d)) = translations_table d @ [?t]"
    by (simp_all add: c)
  from f s l show ?thesis
    by (intro exI[of _ ?t] exI[of _ "if kwargs = [] then self else self1"])
       (simp add: map_of_translated_part)
next
  case (Some m)
  then have e: "shared_part names kwargs = []"
    and t: "Manager_create_error dj (model self) (translations_table d)
                (enforce_language dj self kwargs) = None"
    using assms(3) by simp_all
  have tk: "translated_part names kwargs = kwargs"
    using e by (rule translated_part_all)
  let ?t = "Row (Suc (length (translations_table d))) (enforce_language dj self kwargs)"
  have c: "create dj combine kwargs self d =
      (Inr (combine ?t, self1), d\<lparr>translations_table := translations_table d @ [?t]\<rparr>)"
    using create_with_master_only[OF assms(1,2) Some e, of dj combine d] t by simp
  have l: "map_of (row_fields ?t) ''language_code'' =
          Some (case map_of (translated_part names kwargs) ''language_code'' of
                  Some v \<Rightarrow> v
                | None \<Rightarrow> if truthy (u_language_code self) then u_language_code self
                          else StrV (get_language dj))"
    by (simp add: enforce_language_code tk)
  have f: "fst (create dj combine kwargs self d) = Inr (combine ?t, self1)"
    and s: "translations_table (snd (create dj combine kwargs self d)) = translations_table d @ [?t]"
    by (simp_all add: c)
  from f s l show ?thesis
    by (intro exI[of _ ?t] exI[of _ self1]) (simp add: map_of_translated_part)
qed

lemma example_scoped_names:
  "shared_local_field_names example_scoped =
     Inr ([''id'', ''title'', ''translations''],
          example_scoped\<lparr>u_local_field_names := Some [''id'', ''title'', ''translations'']\<rparr>)"
  by (simp add: shared_local_field_names_def shared_model_def example_queryset_def
        example_scoped_def TranslationMixin_init_def example_shared_def)

lemma example_scoped_real:
  "u_real_manager example_scoped = Some \<lparr>manager_model = example_shared\<rparr>"
  by (simp add: example_queryset_def example_scoped_def TranslationMixin_init_def)

lemma example_scoped_model: "model example_scoped = example_translations"
  by (simp add: example_queryset_def example_scoped_def TranslationMixin_init_def)

theorem create_language_code_chain_witness:
  "map_of (row_fields (last (translations_table (snd (create example_django combine_spec
       [(''subtitle'', StrV ''deux''), (''language_code'', StrV ''fr'')]
       example_scoped example_db))))) ''language_code'' = Some (StrV ''fr'')
   \<and> map_of (row_fields (last (translations_table (snd (create example_django combine_spec
       [(''subtitle'', StrV ''zwei'')]
       example_scoped example_db))))) ''language_code'' = Some (StrV ''de'')
   \<and> map_of (row_fields (last (translations_table (snd (create example_django combine_spec
       [(''subtitle'', StrV ''two'')]
       example_queryset example_db))))) ''language_code'' = Some (StrV ''en'')"
proof -
  let ?names = "[''id'', ''title'', ''translations'']"
  let ?kw1 = "[(''subtitle'', StrV ''deux''), (''language_code'', StrV ''fr'')]"
  let ?kw2 = "[(''subtitle'', StrV ''zwei'')]"
  let ?kw3 = "[(''subtitle'', StrV ''two'')]"
  have d: "distinct (map fst ?kw1)" "distinct (map fst ?kw2)" "distinct (map fst ?kw3)"
    by simp_all
  have m: "map_of (translated_part ?names ?kw1) ''master'' \<noteq> None \<longrightarrow>
             shared_part ?names ?kw1 = []
             \<and> Manager_create_error example_django (model example_scoped)
                  (translations_table example_db)
                  (enforce_language example_django example_scoped ?kw1) = None"
      "map_of (translated_part ?names ?kw2) ''master'' \<noteq> None \<longrightarrow>
             shared_part ?names ?kw2 = []
             \<and> Manager_create_error example_django (model example_scoped)
                  (translations_table example_db)
                  (enforce_language example_django example_scoped ?kw2) = None"
      "map_of (translated_part ?names ?kw3) ''master'' \<noteq> None \<longrightarrow>
             shared_part ?names ?kw3 = []
             \<and> Manager_create_error example_django (model example_queryset)
                  (translations_table example_db)
                  (enforce_language example_django example_queryset ?kw3) = None"
    by (simp_all add: translated_part_def)
  have tk: "translation_kwargs example_django example_scoped example_db ?names ?kw1 =
      [(''subtitle'', StrV ''deux''), (''language_code'', StrV ''fr''),
       (''master'', InstV (Row 1 []))]"
    "translation_kwargs example_django example_scoped example_db ?names ?kw2 =
      [(''subtitle'', StrV ''zwei''), (''language_code'', StrV ''de''),
       (''master'', InstV (Row 1 []))]"
    "translation_kwargs example_django example_queryset example_db ?names ?kw3 =
      [(''subtitle'', StrV ''two''), (''language_code'', StrV ''en''),
       (''master'', InstV (Row 1 []))]"
    by (simp_all add: translation_kwargs_def shared_row_def shared_part_def translated_part_def
          enforce_language_def example_queryset_def example_scoped_def TranslationMixin_init_def
          example_django_def example_db_def)
  have s: "Manager_create_error example_django (manager_model \<lparr>manager_model = example_shared\<rparr>)
      (shared_table example_db) (shared_part ?names ?kw1) = None"
    "Manager_create_error example_django (manager_model \<lparr>manager_model = example_shared\<rparr>)
      (shared_table example_db) (shared_part ?names ?kw2) = None"
    "Manager_create_error example_django (manager_model \<lparr>manager_model = example_shared\<rparr>)
      (shared_table example_db) (shared_part ?names ?kw3) = None"
    by (simp_all add: example_django_def shared_part_def example_shared_def)
  have t: "Manager_create_error example_django (model example_scoped)
      (translations_table example_db)
      (translation_kwargs example_django example_scoped example_db ?names ?kw1) = None"
    "Manager_create_error example_django (model example_scoped)
      (translations_table example_db)
      (translation_kwargs example_django example_scoped example_db ?names ?kw2) = None"
    "Manager_create_error example_django (model example_queryset)
      (translations_table example_db)
      (translation_kwargs example_django example_queryset example_db ?names ?kw3) = None"
    using tk
    by (simp_all add: example_django_def example_model example_scoped_model
          example_translations_def)
  have r: "map_of (translated_part ?names ?kw1) ''master'' = None \<longrightarrow>
           (\<exists>real. u_real_manager example_scoped = Some real
                \<and> Manager_create_error example_django (manager_model real)
                     (shared_table example_db) (shared_part ?names ?kw1) = None)
           \<and> Manager_create_error example_django (model example_scoped)
                (translations_table example_db)
                (translation_kwargs example_django example_scoped example_db ?names ?kw1) = None"
      "map_of (translated_part ?names ?kw2) ''master'' = None \<longrightarrow>
           (\<exists>real. u_real_manager example_scoped = Some real
                \<and> Manager_create_error example_django (manager_model real)
                     (shared_table example_db) (shared_part ?names ?kw2) = None)
           \<and> Manager_create_error example_django (model example_scoped)
                (translations_table example_db)
                (translation_kwargs example_django example_scoped example_db ?names ?kw2) = None"
      "map_of (translated_part ?names ?kw3) ''master'' = None \<longrightarrow>
           (\<exists>real. u_real_manager example_queryset = Some real
                \<and> Manager_create_error example_django (manager_model real)
                     (shared_table example_db) (shared_part ?names ?kw3) = None)
           \<and> Manager_create_error example_django (model example_queryset)
                (translations_table example_db)
                (translation_kwargs example_django example_queryset example_db ?names ?kw3) = None"
    using s t example_scoped_real example_real by simp_all
  have 1: "map_of (row_fields (last (translations_table (snd (create example_django combine_spec
       ?kw1 example_scoped example_db))))) ''language_code'' = Some (StrV ''fr'')"
    using create_language_code_chain[OF d(1) example_scoped_names m(1) r(1),
        of combine_spec]
    by (elim exE conjE) (simp add: translated_part_def)
  have 2: "map_of (row_fields (last (translations_table (snd (create example_django combine_spec
       ?kw2 example_scoped example_db))))) ''language_code'' = Some (StrV ''de'')"
    using create_language_code_chain[OF d(2) example_scoped_names m(2) r(2),
        of combine_spec]
    by (elim exE conjE) (simp add: translated_part_def example_scoped_def)
  have 3: "map_of (row_fields (last (translations_table (snd (create example_django combine_spec
       ?kw3 example_queryset example_db))))) ''language_code'' = Some (StrV ''en'')"
    using create_language_code_chain[OF d(3) example_names m(3) r(3),
        of combine_spec]
    by (elim exE conjE)
       (simp add: translated_part_def example_queryset_def TranslationMixin_init_def
          example_django_def)
  from 1 2 3 show ?thesis by simp
qed

section \<open>Properties of the rewriter on consistent states\<close>

lemma field_translator_get_ok:
  assumes "state_ok real (self, st)"
  shows "\<exists>st'. field_translator_get key (self, st) =
      Inr (if startswith key (all_field_names (manager_model real) @ [''pk''])
           then ''master__'' @ key else key,
           (self\<lparr>u_field_translator := Some (translator_ref (self, st))\<rparr>, st'))
    \<and> state_ok real (self\<lparr>u_field_translator := Some (translator_ref (self, st))\<rparr>, st')"
proof (cases "u_field_translator self")
  case None
  have rm: "u_real_manager self = Some real"
    using assms by (simp add: state_ok_def)
  let ?ft = "\<lparr>shared_fields = all_field_names (manager_model real) @ [''pk''],
              translated_fields = all_field_names (model self), items = []\<rparr>"
  have init: "FieldTranslator_init self = Inr ?ft"
    using rm by (simp add: FieldTranslator_init_def shared_model_def)
  have ok: "cache_ok ?ft" by (simp add: cache_ok_def)
  have v: "fst (FieldTranslator_get ?ft key) = build ?ft key"
    using ok by (rule FieldTranslator_get_value)
  have ok': "cache_ok (snd (FieldTranslator_get ?ft key))"
    using ok by (rule FieldTranslator_get_cache_ok)
  obtain v' ft' where g: "FieldTranslator_get ?ft key = (v', ft')"
    by (cases "FieldTranslator_get ?ft key")
  have sf: "shared_fields ft' = all_field_names (manager_model real) @ [''pk'']"
    using FieldTranslator_get_shared_fields[of ?ft key] g by simp
  show ?thesis
    using None rm init g v ok' sf
    by (simp add: field_translator_get_def field_translator_def translator_ref_def
          state_ok_def build_def)
next
  case (Some r)
  have rm: "u_real_manager self = Some real"
    and sfr: "shared_fields (cells st r) = all_field_names (manager_model real) @ [''pk'']"
    and ok: "cache_ok (cells st r)"
    using assms Some by (simp_all add: state_ok_def)
  have v: "fst (FieldTranslator_get (cells st r) key) = build (cells st r) key"
    using ok by (rule FieldTranslator_get_value)
  have ok': "cache_ok (snd (FieldTranslator_get (cells st r) key))"
    using ok by (rule FieldTranslator_get_cache_ok)
  obtain v' ft' where g: "FieldTranslator_get (cells st r) key = (v', ft')"
    by (cases "FieldTranslator_get (cells st r) key")
  have sf: "shared_fields ft' = all_field_names (manager_model real) @ [''pk'']"
    using FieldTranslator_get_shared_fields[of "cells st r" key] g sfr by simp
  have same: "self\<lparr>u_field_translator := Some r\<rparr> = self"
    using Some by simp
  show ?thesis
    using Some rm g v ok' sf sfr same
    by (simp add: field_translator_get_def field_translator_def translator_ref_def
          state_ok_def build_def)
qed

text \<open>
  Any property of states that every resolver call keeps, and under which the resolver
  returns, is kept by the rewriter, and the rewriter returns.
\<close>

lemma recurse_preserves:
  assumes step: "\<forall>key s. P s \<longrightarrow> (\<exists>v s'. field_translator_get key s = Inr (v, s') \<and> P s')"
  shows "P s \<Longrightarrow> \<exists>q' s'. recurse_q q s = Inr (q', s') \<and> P s'"
    and "P s \<Longrightarrow> \<exists>cs' s'. recurse_children cs acc s = Inr (cs', s') \<and> P s'"
proof (induction q s and cs acc s rule: recurse_q_recurse_children.induct)
  case (1 c n cs s)
  from "1.IH"[OF "1.prems"] obtain cs' s' where
    "recurse_children cs [] s = Inr (cs', s')" and "P s'"
    by (elim exE conjE)
  then show ?case by simp
next
  case (2 newchildren s)
  then show ?case by simp
next
  case (3 r cs newchildren s)
  from "3.IH"[OF "3.prems"] show ?case by simp
next
  case (4 q cs newchildren s)
  from "4.IH"(1)[OF "4.prems"] obtain newq s1 where
    a: "recurse_q q s = Inr (newq, s1)" and p1: "P s1"
    by (elim exE conjE)
  from "4.IH"(2)[OF a refl p1] obtain newq2 s2 where
    b: "recurse_q newq s1 = Inr (newq2, s2)" and p2: "P s2"
    by (elim exE conjE)
  from "4.IH"(3)[OF a refl b refl p2] obtain cs' s' where
    "recurse_children cs (newchildren @ [QChild newq2]) s2 = Inr (cs', s')" and "P s'"
    by (elim exE conjE)
  then show ?case using a b by simp
next
  case (5 key v cs newchildren s)
  from step "5.prems" have "\<exists>v s'. field_translator_get key s = Inr (v, s') \<and> P s'"
    by blast
  then obtain key' s1 where
    a: "field_translator_get key s = Inr (key', s1)" and p1: "P s1"
    by (elim exE conjE)
  from "5.IH"[OF a refl p1] obtain cs' s' where
    "recurse_children cs (newchildren @ [Leaf key' v]) s1 = Inr (cs', s')" and "P s'"
    by (elim exE conjE)
  then show ?case using a by simp
qed

lemma translate_args_preserves:
  assumes step: "\<forall>key s. P s \<longrightarrow> (\<exists>v s'. field_translator_get key s = Inr (v, s') \<and> P s')"
  shows "P s \<Longrightarrow> \<exists>newargs s'. translate_args args acc s = Inr (newargs, s') \<and> P s'"
proof (induction args arbitrary: acc s)
  case Nil
  then show ?case by simp
next
  case (Cons q args)
  from recurse_preserves(1)[OF step Cons.prems, of q] obtain q' s1 where
    a: "recurse_q q s = Inr (q', s1)" and p1: "P s1"
    by (elim exE conjE)
  from Cons.IH[OF p1, of "acc @ [q']"] obtain newargs s' where
    "translate_args args (acc @ [q']) s1 = Inr (newargs, s')" and "P s'"
    by (elim exE conjE)
  then show ?case using a by simp
qed

lemma translate_kwargs_preserves:
  assumes step: "\<forall>key s. P s \<longrightarrow> (\<exists>v s'. field_translator_get key s = Inr (v, s') \<and> P s')"
  shows "P s \<Longrightarrow> \<exists>newkwargs s'. translate_kwargs kwargs acc s = Inr (newkwargs, s') \<and> P s'"
proof (induction kwargs arbitrary: acc s)
  case Nil
  then show ?case by simp
next
  case (Cons kv kwargs)
  obtain k v where kv: "kv = (k, v)" by (cases kv)
  from step Cons.prems have "\<exists>v s'. field_translator_get k s = Inr (v, s') \<and> P s'"
    by blast
  then obtain k' s1 where
    a: "field_translator_get k s = Inr (k', s1)" and p1: "P s1"
    by (elim exE conjE)
  from Cons.IH[OF p1, of "AList.update k' v acc"] obtain newkwargs s' where
    "translate_kwargs kwargs (AList.update k' v acc) s1 = Inr (newkwargs, s')" and "P s'"
    by (elim exE conjE)
  then show ?case using a kv by simp
qed

lemma state_ok_step:
  "\<forall>key s. state_ok real s \<longrightarrow>
     (\<exists>v s'. field_translator_get key s = Inr (v, s') \<and> state_ok real s')"
proof (intro allI impI)
  fix key and s :: "'a state"
  assume ok: "state_ok real s"
  obtain self st where s: "s = (self, st)" by (cases s)
  from ok s have "state_ok real (self, st)" by simp
  from field_translator_get_ok[OF this, of key] obtain v s' where
    "field_translator_get key (self, st) = Inr (v, s')" and "state_ok real s'"
    by (elim exE conjE)
  then show "\<exists>v s'. field_translator_get key s = Inr (v, s') \<and> state_ok real s'"
    using s by blast
qed

lemma translate_ok:
  assumes "state_ok real (self, st)"
  shows "\<exists>newargs newkwargs self1 st1.
      translate args kwargs (self, st) = Inr ((newargs, newkwargs), (self1, st1))
      \<and> state_ok real (self1, st1)
      \<and> self1 = self\<lparr>u_field_translator := u_field_translator self1\<rparr>"
proof -
  define P where "P = (\<lambda>s :: 'a state. state_ok real s
      \<and> fst s = self\<lparr>u_field_translator := u_field_translator (fst s)\<rparr>)"
  have step: "\<forall>key s. P s \<longrightarrow> (\<exists>v s'. field_translator_get key s = Inr (v, s') \<and> P s')"
  proof (intro allI impI)
    fix key and s :: "'a state"
    assume p: "P s"
    obtain self0 st0 where s: "s = (self0, st0)" by (cases s)
    from p s have ok: "state_ok real (self0, st0)"
      and fr: "self0 = self\<lparr>u_field_translator := u_field_translator self0\<rparr>"
      by (simp_all add: P_def)
    from field_translator_get_ok[OF ok, of key] obtain v st' where
      g: "field_translator_get key (self0, st0) =
            Inr (v, (self0\<lparr>u_field_translator := Some (translator_ref (self0, st0))\<rparr>, st'))"
      and ok': "state_ok real (self0\<lparr>u_field_translator := Some (translator_ref (self0, st0))\<rparr>, st')"
      by (elim exE conjE)
    have "self0\<lparr>u_field_translator := Some (translator_ref (self0, st0))\<rparr> =
        self\<lparr>u_field_translator := Some (translator_ref (self0, st0))\<rparr>"
      by (subst fr) simp
    then have "P (self0\<lparr>u_field_translator := Some (translator_ref (self0, st0))\<rparr>, st')"
      using ok' by (simp add: P_def)
    with g s show "\<exists>v s'. field_translator_get key s = Inr (v, s') \<and> P s'"
      by blast
  qed
  have p0: "P (self, st)"
    using assms by (simp add: P_def)
  from translate_kwargs_preserves[OF step p0, of kwargs "[]"] obtain newkwargs s1 where
    a: "translate_kwargs kwargs [] (self, st) = Inr (newkwargs, s1)" and p1: "P s1"
    by (elim exE conjE)
  from translate_args_preserves[OF step p1, of args "[]"] obtain newargs s2 where
    b: "translate_args args [] s1 = Inr (newargs, s2)" and p2: "P s2"
    by (elim exE conjE)
  obtain self1 st1 where s2: "s2 = (self1, st1)" by (cases s2)
  have "translate args kwargs (self, st) = Inr ((newargs, newkwargs), (self1, st1))"
    using a b s2 by (simp add: translate_def)
  moreover have "state_ok real (self1, st1)"
    and "self1 = self\<lparr>u_field_translator := u_field_translator self1\<rparr>"
    using p2 s2 by (simp_all add: P_def)
  ultimately show ?thesis by blast
qed

lemma qualified_language_code:
  "(if startswith k names then ''master__'' @ k else k) = ''language_code'' \<Longrightarrow>
   k = ''language_code''"
  by (simp split: if_splits)

lemma translate_kwargs_language_code:
  assumes np: "\<not> startswith ''language_code'' (all_field_names (manager_model real) @ [''pk''])"
  shows "state_ok real s \<Longrightarrow> distinct (map fst kwargs) \<Longrightarrow>
     translate_kwargs kwargs acc s = Inr (newkwargs, s') \<Longrightarrow>
     map_of newkwargs ''language_code'' =
       (case map_of kwargs ''language_code'' of
          Some v \<Rightarrow> Some v
        | None \<Rightarrow> map_of acc ''language_code'')"
proof (induction kwargs arbitrary: acc s)
  case Nil
  then show ?case by simp
next
  case (Cons kv kwargs)
  obtain k v where kv: "kv = (k, v)" by (cases kv)
  obtain self st where s: "s = (self, st)" by (cases s)
  define k' where "k' = (if startswith k (all_field_names (manager_model real) @ [''pk''])
             then ''master__'' @ k else k)"
  from Cons.prems(1) s have "state_ok real (self, st)" by simp
  from field_translator_get_ok[OF this, of k] obtain s1 where
    g: "field_translator_get k s = Inr (k', s1)" and ok1: "state_ok real s1"
    using s unfolding k'_def by (elim exE conjE) simp
  have d: "distinct (map fst kwargs)" and fresh: "k \<notin> fst ` set kwargs"
    using Cons.prems(2) kv by auto
  have t: "translate_kwargs kwargs (AList.update k' v acc) s1 = Inr (newkwargs, s')"
    using Cons.prems(3) kv g by simp
  note ih = Cons.IH[OF ok1 d t]
  show ?case
  proof (cases "k = ''language_code''")
    case True
    have "map_of kwargs ''language_code'' = None"
      using fresh True by (simp add: map_of_eq_None_iff)
    moreover have "k' = ''language_code''"
      using True np by (simp add: k'_def)
    ultimately show ?thesis
      using ih kv True by (simp add: update_conv')
  next
    case False
    have "k' \<noteq> ''language_code''"
      using False qualified_language_code[of k] unfolding k'_def by blast
    then have "map_of (AList.update k' v acc) ''language_code'' = map_of acc ''language_code''"
      by (simp add: update_conv')
    then show ?thesis
      using ih kv False by (simp split: option.splits)
  qed
qed

section \<open>Properties of get\<close>

lemma translate_language_code:
  assumes "\<not> startswith ''language_code'' (all_field_names (manager_model real) @ [''pk''])"
    and "state_ok real s" and "distinct (map fst kwargs)"
    and "translate args kwargs s = Inr ((newargs, newkwargs), s')"
  shows "map_of newkwargs ''language_code'' = map_of kwargs ''language_code''"
proof -
  from assms(4) obtain s1 where "translate_kwargs kwargs [] s = Inr (newkwargs, s1)"
    by (cases "translate_kwargs kwargs [] s"; cases "translate_args args [] (snd (projr (translate_kwargs kwargs [] s)))")
       (auto simp: translate_def)
  from translate_kwargs_language_code[OF assms(1,2,3) this] show ?thesis
    by (simp split: option.splits)
qed

lemma select_related_attributes [simp]:
  "u_local_field_names (QuerySet_select_related dj self names) = u_local_field_names self"
  "u_field_translator (QuerySet_select_related dj self names) = u_field_translator self"
  "u_language_code (QuerySet_select_related dj self names) = u_language_code self"
  "u_real_manager (QuerySet_select_related dj self names) = u_real_manager self"
  by (simp_all add: QuerySet_select_related_def Let_def)

lemma filter_attributes [simp]:
  "u_local_field_names (QuerySet_filter dj self args kwargs) = u_local_field_names self"
  "u_field_translator (QuerySet_filter dj self args kwargs) = u_field_translator self"
  "u_language_code (QuerySet_filter dj self args kwargs) = u_language_code self"
  "u_real_manager (QuerySet_filter dj self args kwargs) = u_real_manager self"
  by (simp_all add: QuerySet_filter_def Let_def)

lemma state_ok_cong:
  "u_real_manager qs = u_real_manager self \<Longrightarrow>
   u_field_translator qs = u_field_translator self \<Longrightarrow>
   state_ok real (qs, st) = state_ok real (self, st)"
  by (simp add: state_ok_def)

lemma translator_ref_cong:
  "u_field_translator qs = u_field_translator self \<Longrightarrow>
   translator_ref (qs, st) = translator_ref (self, st)"
  by (simp add: translator_ref_def)

lemma language_ok:
  assumes ok: "state_ok real (qs, st)"
    and np: "\<not> startswith ''language_code'' (all_field_names (manager_model real) @ [''pk''])"
  shows "\<exists>st'. language dj v (qs, st) =
      Inr (QuerySet_filter dj
             (qs\<lparr>u_field_translator := Some (translator_ref (qs, st)),
                 u_language_code := if truthy v then v else StrV (get_language dj)\<rparr>)
             [] [(''language_code'', if truthy v then v else StrV (get_language dj))],
           (qs\<lparr>u_field_translator := Some (translator_ref (qs, st)),
               u_language_code := if truthy v then v else StrV (get_language dj)\<rparr>, st'))"
proof -
  define code where "code = (if truthy v then v else StrV (get_language dj))"
  define qs' where "qs' = qs\<lparr>u_language_code := code\<rparr>"
  have ok': "state_ok real (qs', st)"
    using ok by (simp add: qs'_def state_ok_def)
  have tr: "translator_ref (qs', st) = translator_ref (qs, st)"
    by (simp add: qs'_def translator_ref_def)
  from field_translator_get_ok[OF ok', of "''language_code''"] np obtain st' where
    g: "field_translator_get ''language_code'' (qs', st) =
          Inr (''language_code'', (qs'\<lparr>u_field_translator := Some (translator_ref (qs, st))\<rparr>, st'))"
    unfolding tr by (elim exE conjE) simp
  have l: "language dj v (qs, st) = filter_qs dj [] [(''language_code'', code)] (qs', st)"
    unfolding language_def code_def qs'_def by (simp add: Let_def)
  have "language dj v (qs, st) =
      Inr (QuerySet_filter dj (qs'\<lparr>u_field_translator := Some (translator_ref (qs, st))\<rparr>)
             [] [(''language_code'', code)],
           (qs'\<lparr>u_field_translator := Some (translator_ref (qs, st))\<rparr>, st'))"
    unfolding l using g by (simp add: filter_qs_def translate_def)
  moreover have "qs'\<lparr>u_field_translator := Some (translator_ref (qs, st))\<rparr> =
      qs\<lparr>u_field_translator := Some (translator_ref (qs, st)), u_language_code := code\<rparr>"
    by (simp add: qs'_def)
  ultimately show ?thesis
    unfolding code_def by (intro exI[of _ st']) simp
qed

lemma scan_children_iff:
  "scan_children cs found \<longleftrightarrow>
     found \<or> (\<exists>c\<in>set cs. constraint_field_name c = ''language_code'')"
  by (induction cs arbitrary: found) auto

lemma scan_where_iff:
  "scan_where ws found \<longleftrightarrow>
     found \<or> (\<exists>w\<in>set ws. \<exists>c\<in>set (node_children w). constraint_field_name c = ''language_code'')"
  by (induction ws arbitrary: found) (auto simp: scan_children_iff)

lemma language_scoped_code [simp]:
  "u_language_code (language_scoped dj (self, st) code) = code"
  by (simp add: language_scoped_def)

text \<open>
  What \<open>get\<close> hands to the lookup, case by case, in terms of what \<open>_translate\<close>
  returned.
\<close>

lemma get_scope_cases:
  assumes ok: "state_ok real (self, st)"
    and np: "\<not> startswith ''language_code'' (all_field_names (manager_model real) @ [''pk''])"
    and d: "distinct (map fst kwargs)"
  shows "\<exists>newargs newkwargs self1 st1.
      translate args kwargs (self, st) = Inr ((newargs, newkwargs), (self1, st1))
      \<and> self1 = self\<lparr>u_field_translator := u_field_translator self1\<rparr>
      \<and> map_of newkwargs ''language_code'' = map_of kwargs ''language_code''
      \<and> (\<forall>v. map_of kwargs ''language_code'' = Some v \<longrightarrow>
            (\<exists>st2. get_scope dj args kwargs (self, st) =
              Inr ((language_scoped dj (self1, st1)
                      (if truthy v then v else StrV (get_language dj)),
                    newargs, AList.delete ''language_code'' newkwargs),
                   (self1, st2))))
      \<and> (map_of kwargs ''language_code'' = None \<longrightarrow>
            (\<exists>st2. get_scope dj args kwargs (self, st) =
              (if scan_where (Query_where_children dj
                     (query (QuerySet_select_related dj self1 [''master'']))) False
               then Inr ((QuerySet_select_related dj self1 [''master''], newargs, newkwargs),
                         (self1, st1))
               else Inr ((language_scoped dj (self1, st1) (StrV (get_language dj)),
                          newargs, newkwargs),
                         (self1, st2)))))"
proof -
  from translate_ok[OF ok, of args kwargs] obtain newargs newkwargs self1 st1 where
    t: "translate args kwargs (self, st) = Inr ((newargs, newkwargs), (self1, st1))"
    and ok1: "state_ok real (self1, st1)"
    and fr: "self1 = self\<lparr>u_field_translator := u_field_translator self1\<rparr>"
    by (elim exE conjE)
  have lc: "map_of newkwargs ''language_code'' = map_of kwargs ''language_code''"
    using np ok d t by (rule translate_language_code)
  define sel where "sel = QuerySet_select_related dj self1 [''master'']"
  have oks: "state_ok real (sel, st1)"
    using ok1 by (simp add: sel_def state_ok_def)
  have trs: "translator_ref (QuerySet_select_related dj self1 [''master''], st1) =
      translator_ref (self1, st1)"
    by (simp add: translator_ref_def)
  have l: "\<exists>st2. language dj v (sel, st1) =
      Inr (language_scoped dj (self1, st1) (if truthy v then v else StrV (get_language dj)),
           (sel\<lparr>u_field_translator := Some (translator_ref (self1, st1)),
                u_language_code := if truthy v then v else StrV (get_language dj)\<rparr>, st2))" for v
  proof -
    from language_ok[OF oks np, of dj v] obtain st3 where
      "language dj v (sel, st1) =
          Inr (QuerySet_filter dj
             (sel\<lparr>u_field_translator := Some (translator_ref (sel, st1)),
                 u_language_code := if truthy v then v else StrV (get_language dj)\<rparr>)
             [] [(''language_code'', if truthy v then v else StrV (get_language dj))],
           (sel\<lparr>u_field_translator := Some (translator_ref (sel, st1)),
               u_language_code := if truthy v then v else StrV (get_language dj)\<rparr>, st3))"
      by (elim exE)
    then have "language dj v (sel, st1) =
      Inr (language_scoped dj (self1, st1) (if truthy v then v else StrV (get_language dj)),
           (sel\<lparr>u_field_translator := Some (translator_ref (self1, st1)),
                u_language_code := if truthy v then v else StrV (get_language dj)\<rparr>, st3))"
      unfolding language_scoped_def sel_def trs by simp
    then show ?thesis by (rule exI)
  qed
  have a: "\<exists>st2. get_scope dj args kwargs (self, st) =
              Inr ((language_scoped dj (self1, st1)
                      (if truthy v then v else StrV (get_language dj)),
                    newargs, AList.delete ''language_code'' newkwargs),
                   (self1, st2))"
    if "map_of kwargs ''language_code'' = Some v" for v
  proof -
    from l[of v] obtain st2 where l2: "language dj v (sel, st1) =
      Inr (language_scoped dj (self1, st1) (if truthy v then v else StrV (get_language dj)),
           (sel\<lparr>u_field_translator := Some (translator_ref (self1, st1)),
                u_language_code := if truthy v then v else StrV (get_language dj)\<rparr>, st2))"
      by (elim exE)
    have "get_scope dj args kwargs (self, st) =
              Inr ((language_scoped dj (self1, st1)
                      (if truthy v then v else StrV (get_language dj)),
                    newargs, AList.delete ''language_code'' newkwargs),
                   (self1, st2))"
      unfolding get_scope_def t using that lc l2 by (simp add: Let_def sel_def[symmetric])
    then show ?thesis by (rule exI)
  qed
  have b: "\<exists>st2. get_scope dj args kwargs (self, st) =
              (if scan_where (Query_where_children dj
                     (query (QuerySet_select_related dj self1 [''master'']))) False
               then Inr ((QuerySet_select_related dj self1 [''master''], newargs, newkwargs),
                         (self1, st1))
               else Inr ((language_scoped dj (self1, st1) (StrV (get_language dj)),
                          newargs, newkwargs),
                         (self1, st2)))"
    if "map_of kwargs ''language_code'' = None"
  proof -
    from l[of NoneV] obtain st2 where l2: "language dj NoneV (sel, st1) =
      Inr (language_scoped dj (self1, st1) (StrV (get_language dj)),
           (sel\<lparr>u_field_translator := Some (translator_ref (self1, st1)),
                u_language_code := StrV (get_language dj)\<rparr>, st2))"
      by (elim exE) simp
    have "get_scope dj args kwargs (self, st) =
              (if scan_where (Query_where_children dj
                     (query (QuerySet_select_related dj self1 [''master'']))) False
               then Inr ((QuerySet_select_related dj self1 [''master''], newargs, newkwargs),
                         (self1, st1))
               else Inr ((language_scoped dj (self1, st1) (StrV (get_language dj)),
                          newargs, newkwargs),
                         (self1, st2)))"
      unfolding get_scope_def t using that lc l2 by (simp add: Let_def sel_def[symmetric])
    then show ?thesis by (rule exI)
  qed
  have "translate args kwargs (self, st) = Inr ((newargs, newkwargs), (self1, st1))
      \<and> self1 = self\<lparr>u_field_translator := u_field_translator self1\<rparr>
      \<and> map_of newkwargs ''language_code'' = map_of kwargs ''language_code''
      \<and> (\<forall>v. map_of kwargs ''language_code'' = Some v \<longrightarrow>
            (\<exists>st2. get_scope dj args kwargs (self, st) =
              Inr ((language_scoped dj (self1, st1)
                      (if truthy v then v else StrV (get_language dj)),
                    newargs, AList.delete ''language_code'' newkwargs),
                   (self1, st2))))
      \<and> (map_of kwargs ''language_code'' = None \<longrightarrow>
            (\<exists>st2. get_scope dj args kwargs (self, st) =
              (if scan_where (Query_where_children dj
                     (query (QuerySet_select_related dj self1 [''master'']))) False
               then Inr ((QuerySet_select_related dj self1 [''master''], newargs, newkwargs),
                         (self1, st1))
               else Inr ((language_scoped dj (self1, st1) (StrV (get_language dj)),
                          newargs, newkwargs),
                         (self1, st2)))))"
    using t fr lc a b by (intro conjI allI impI)
  then show ?thesis
    by - ((rule exI)+, assumption)
qed

section \<open>The expression rewriter on nested expressions\<close>

text \<open>
  C2. The claim says that every leaf has its field name passed through the resolver
  exactly once, also inside nested subtrees. \<open>_recurse_q\<close> rewrites a nested \<open>Q\<close> child and
  then rewrites the result again, so a leaf one level down goes through the resolver
  twice. With a shared model that has a field named \<open>master\<close>, the leaf \<open>master\<close> at the
  top level becomes \<open>master__master\<close> and the same leaf inside a nested \<open>Q\<close> becomes
  \<open>master__master__master\<close>; the \<open>R\<close> child and the shape of the tree are kept. With the
  ordinary example model the second pass is visible in the translator's cache, which
  holds an entry for the name \<open>master__title\<close> that only the second pass looks up.
\<close>

theorem recurse_q_nested_leaf_resolved_twice:
  "map_sum id fst
     (recurse_q
        (Q ''AND'' False
           [Leaf ''master'' (IntV 1),
            RChild (R [(''title'', StrV ''raw'')]),
            QChild (Q ''OR'' False [Leaf ''master'' (IntV 1), Leaf ''subtitle'' (StrV ''x'')])])
        (example_master_queryset, example_store)) =
   Inr (Q ''AND'' False
          [Leaf ''master__master'' (IntV 1),
           RChild (R [(''title'', StrV ''raw'')]),
           QChild (Q ''OR'' False
             [Leaf ''master__master__master'' (IntV 1), Leaf ''subtitle'' (StrV ''x'')])])
   \<and> map_sum id (\<lambda>r. items (cells (snd (snd r)) 0))
     (recurse_q
        (Q ''AND'' False [QChild (Q ''OR'' False [Leaf ''title'' (StrV ''x'')])])
        (example_queryset, example_store)) =
   Inr [(''title'', ''master__title''), (''master__title'', ''master__title'')]"
  by (simp add: field_translator_get_def field_translator_def FieldTranslator_init_def
        FieldTranslator_get_def build_def startswith_def shared_model_def Let_def
        example_master_queryset_def example_queryset_def example_store_def
        TranslationMixin_init_def example_translations_def example_shared_def)


end
